theory Spec2Isabelle
  imports Main "HOL-Library.Word" "HOL-Library.Signed_Division"
begin

section \<open>The moving-map gauge of SoFIS (map-gauge.c, map-math.h)\<close>

text \<open>
  C's \<^verbatim>\<open>uint32_t\<close>, \<^verbatim>\<open>Uint32\<close> and \<^verbatim>\<open>int\<close> are 32-bit words: \<open>+\<close>, \<open>-\<close> and \<open>*\<close>
  wrap, \<open>unat\<close>/\<open>uint\<close> read a word as unsigned and \<open>sint\<close> as two's complement. A
  conversion between \<^verbatim>\<open>int\<close> and \<^verbatim>\<open>uint32_t\<close> keeps the bits, so both live in the same
  type and only the comparisons and the divisions say which reading is meant.
\<close>

type_synonym u32 = "32 word"

subsection \<open>misc.h and map-math.h\<close>

text \<open>\<^verbatim>\<open>MAX(a,b)\<close> and \<^verbatim>\<open>MIN(a,b)\<close> on two \<^verbatim>\<open>int\<close>s.\<close>

definition MAX_int :: "u32 \<Rightarrow> u32 \<Rightarrow> u32" where
  "MAX_int a b = (if b <s a then a else b)"

definition MIN_int :: "u32 \<Rightarrow> u32 \<Rightarrow> u32" where
  "MIN_int a b = (if a <s b then a else b)"

text \<open>
  Modelled from the spec: \<^verbatim>\<open>clamp\<close> of misc.h, which is not among the sources. The spec
  calls it a pure clamp; map-math.h names it next to \<^verbatim>\<open>clampd\<close> and map-gauge.c uses
  \<^verbatim>\<open>clampf\<close> for floats, so \<^verbatim>\<open>clamp\<close> is the \<^verbatim>\<open>int\<close> member of the family. It is given the
  body of \<^verbatim>\<open>map_math_clip\<close>, \<^verbatim>\<open>MIN(MAX(n, minValue), maxValue)\<close>, on \<^verbatim>\<open>int\<close>s: its
  \<^verbatim>\<open>uint32_t\<close> arguments are read as two's complement.
\<close>

definition clamp :: "u32 \<Rightarrow> u32 \<Rightarrow> u32 \<Rightarrow> u32" where
  "clamp n minValue maxValue = MIN_int (MAX_int n minValue) maxValue"

text \<open>\<^verbatim>\<open>map_math_size\<close>: \<^verbatim>\<open>((uint32_t)256) << level\<close>.\<close>

definition map_math_size :: "nat \<Rightarrow> u32" where
  "map_math_size lv = push_bit lv 256"

text \<open>C's \<^verbatim>\<open>/\<close> on two \<^verbatim>\<open>int\<close>s truncates towards zero.\<close>

definition int_div :: "u32 \<Rightarrow> u32 \<Rightarrow> u32" where
  "int_div a b = word_of_int (sint a sdiv sint b)"

subsection \<open>SDL_Rect and SDL_IntersectRect\<close>

text \<open>
  SDL's rectangle has four \<^verbatim>\<open>int\<close> fields. Its arithmetic is signed, where overflow is
  undefined in C; the fields are unbounded integers here, read from the gauge's words
  with \<open>sint\<close>.
\<close>

record SDL_Rect =
  rect_x :: int
  rect_y :: int
  rect_w :: int
  rect_h :: int

definition SDL_RectEmpty :: "SDL_Rect \<Rightarrow> bool" where
  "SDL_RectEmpty r = (rect_w r \<le> 0 \<or> rect_h r \<le> 0)"

text \<open>
  \<^verbatim>\<open>SDL_IntersectRect(A, B, result)\<close> of SDL2: with an empty \<open>A\<close> or \<open>B\<close> it zeroes
  the width and the height of \<open>result\<close> and leaves its position as it was; otherwise
  it writes the intersection and returns whether that is non-empty.
\<close>

definition SDL_IntersectRect :: "SDL_Rect \<Rightarrow> SDL_Rect \<Rightarrow> SDL_Rect \<Rightarrow> bool \<times> SDL_Rect" where
  "SDL_IntersectRect A B result =
     (if SDL_RectEmpty A \<or> SDL_RectEmpty B
      then (False, result\<lparr>rect_w := 0, rect_h := 0\<rparr>)
      else
        let Amin = rect_x A; Amax = Amin + rect_w A;
            Bmin = rect_x B; Bmax = Bmin + rect_w B;
            Amin = (if Bmin > Amin then Bmin else Amin);
            rx = Amin;
            Amax = (if Bmax < Amax then Bmax else Amax);
            rw = Amax - Amin;
            Amin = rect_y A; Amax = Amin + rect_h A;
            Bmin = rect_y B; Bmax = Bmin + rect_h B;
            Amin = (if Bmin > Amin then Bmin else Amin);
            ry = Amin;
            Amax = (if Bmax < Amax then Bmax else Amax);
            rh = Amax - Amin;
            result = \<lparr>rect_x = rx, rect_y = ry, rect_w = rw, rect_h = rh\<rparr>
        in (\<not> SDL_RectEmpty result, result))"

subsection \<open>The gauge\<close>

text \<open>
  map-gauge.h is not among the sources; the fields are those map-gauge.c reads and
  writes, with the types of the values it stores in them.
\<close>

record MapPatch =
  patch_src :: SDL_Rect
  patch_dst :: SDL_Rect
  patch_layer :: nat

text \<open>What \<^verbatim>\<open>map_tile_provider_new(home, format, cache_tiles)\<close> was built from.\<close>

record MapTileProvider =
  provider_home :: string
  provider_format :: string
  provider_cache_tiles :: nat

text \<open>
  \<open>frame_w\<close> and \<open>frame_h\<close> are \<^verbatim>\<open>base_gauge_w\<close> and \<^verbatim>\<open>base_gauge_h\<close>;
  \<open>marker_layer_w\<close> and \<open>marker_layer_h\<close> are \<^verbatim>\<open>generic_layer_w\<close> and
  \<^verbatim>\<open>generic_layer_h\<close> of the marker's sprite (all four \<^verbatim>\<open>int\<close>). \<open>patches\<close> is the
  block \<^verbatim>\<open>state.patches\<close> points to, as a map from index to entry: \<open>apatches\<close> entries
  are allocated and the first \<open>npatches\<close> are this frame's patches. \<open>layer_refs\<close> is
  the reference count of each tile layer, which \<^verbatim>\<open>generic_layer_ref\<close> and
  \<^verbatim>\<open>generic_layer_unref\<close> move by one. \<open>center_calls\<close> is not a field of the C
  struct: it counts the calls of \<^verbatim>\<open>map_gauge_center_on_marker\<close>, so that a statement can
  say that a recenter was triggered.
\<close>

record MapGauge =
  frame_w :: u32
  frame_h :: u32
  dirty :: bool
  level :: nat
  world_x :: u32
  world_y :: u32
  marker_x :: u32
  marker_y :: u32
  marker_layer_w :: u32
  marker_layer_h :: u32
  tile_providers :: "MapTileProvider list"
  roaming :: bool
  last_manipulation :: u32
  patches :: "nat \<Rightarrow> MapPatch"
  apatches :: nat
  npatches :: nat
  marker_src :: SDL_Rect
  marker_dst :: SDL_Rect
  layer_refs :: "nat \<Rightarrow> int"
  center_calls :: nat

definition TILE_SIZE :: nat where "TILE_SIZE = 256"
definition MANIPULATE_TIMEOUT :: u32 where "MANIPULATE_TIMEOUT = 2000"
definition PIX_LIMIT :: u32 where "PIX_LIMIT = 10"

definition map_gauge_marker_left :: "MapGauge \<Rightarrow> u32" where
  "map_gauge_marker_left self = marker_x self - int_div (marker_layer_w self) 2"

definition map_gauge_marker_top :: "MapGauge \<Rightarrow> u32" where
  "map_gauge_marker_top self = marker_y self - int_div (marker_layer_h self) 2"

definition map_gauge_marker_worldbox :: "MapGauge \<Rightarrow> SDL_Rect" where
  "map_gauge_marker_worldbox self =
     \<lparr>rect_x = sint (map_gauge_marker_left self),
      rect_y = sint (map_gauge_marker_top self),
      rect_w = sint (marker_layer_w self),
      rect_h = sint (marker_layer_h self)\<rparr>"

definition map_gauge_viewport :: "MapGauge \<Rightarrow> SDL_Rect" where
  "map_gauge_viewport self =
     \<lparr>rect_x = sint (world_x self),
      rect_y = sint (world_y self),
      rect_w = sint (frame_w self),
      rect_h = sint (frame_h self)\<rparr>"

text \<open>
  \<^verbatim>\<open>map_gauge_set_viewport\<close>. The result is the returned \<^verbatim>\<open>bool\<close> and the gauge after
  the call. \<open>animated\<close> is overwritten before it is read, as in the source.
\<close>

definition map_gauge_set_viewport :: "MapGauge \<Rightarrow> u32 \<Rightarrow> u32 \<Rightarrow> bool \<Rightarrow> bool \<times> MapGauge" where
  "map_gauge_set_viewport self x y animated =
     (let map_lastcoord = map_math_size (level self) - 1;
          x = clamp x 0 (map_lastcoord - frame_w self);
          y = clamp y 0 (map_lastcoord - frame_h self)
      in if x = world_x self \<and> y = world_y self then (False, self)
         else
           let animated = False
           in if animated then (True, self)
              else (True, self\<lparr>world_x := x, world_y := y, dirty := True\<rparr>))"

text \<open>\<^verbatim>\<open>map_gauge_move_viewport\<close>: \<open>dx\<close> and \<open>dy\<close> are \<^verbatim>\<open>int32_t\<close>.\<close>

definition map_gauge_move_viewport :: "MapGauge \<Rightarrow> u32 \<Rightarrow> u32 \<Rightarrow> bool \<Rightarrow> bool \<times> MapGauge" where
  "map_gauge_move_viewport self dx dy animated =
     map_gauge_set_viewport self (world_x self + dx) (world_y self + dy) animated"

text \<open>
  \<^verbatim>\<open>map_gauge_manipulate_viewport\<close>; \<open>now\<close> is what \<^verbatim>\<open>SDL_GetTicks()\<close> returns during
  the call.
\<close>

definition map_gauge_manipulate_viewport ::
  "u32 \<Rightarrow> MapGauge \<Rightarrow> u32 \<Rightarrow> u32 \<Rightarrow> bool \<Rightarrow> bool \<times> MapGauge" where
  "map_gauge_manipulate_viewport now self dx dy animated =
     (let self = self\<lparr>last_manipulation := now\<rparr>;
          self = self\<lparr>roaming := True\<rparr>
      in map_gauge_set_viewport self (world_x self + dx) (world_y self + dy) animated)"

text \<open>
  Modelled from the spec: \<^verbatim>\<open>base_gauge_center_x\<close> and \<^verbatim>\<open>base_gauge_center_y\<close> of
  base-gauge.h, which is not among the sources. The spec speaks of the viewport's
  center: half the width and half the height, in \<^verbatim>\<open>int\<close> arithmetic.
\<close>

definition base_gauge_center_x :: "MapGauge \<Rightarrow> u32" where
  "base_gauge_center_x self = int_div (frame_w self) 2"

definition base_gauge_center_y :: "MapGauge \<Rightarrow> u32" where
  "base_gauge_center_y self = int_div (frame_h self) 2"

text \<open>
  The two coordinates \<^verbatim>\<open>map_gauge_center_on_marker\<close> passes to
  \<^verbatim>\<open>map_gauge_set_viewport\<close>.
\<close>

definition center_on_marker_target :: "MapGauge \<Rightarrow> u32 \<times> u32" where
  "center_on_marker_target self =
     (map_gauge_marker_left self - base_gauge_center_x self,
      map_gauge_marker_top self - base_gauge_center_y self)"

definition map_gauge_center_on_marker :: "MapGauge \<Rightarrow> bool \<Rightarrow> bool \<times> MapGauge" where
  "map_gauge_center_on_marker self animated =
     (let self = self\<lparr>center_calls := Suc (center_calls self)\<rparr>
      in map_gauge_set_viewport self
           (fst (center_on_marker_target self)) (snd (center_on_marker_target self)) animated)"

text \<open>
  \<^verbatim>\<open>map_gauge_follow_marker\<close>. The comparisons are between \<^verbatim>\<open>uint32_t\<close> values, so
  unsigned; the last one reads \<^verbatim>\<open>world_x\<close>, as the source does.
\<close>

definition map_gauge_follow_marker :: "MapGauge \<Rightarrow> bool \<times> MapGauge" where
  "map_gauge_follow_marker self =
     (let (visible, r) = SDL_IntersectRect (map_gauge_viewport self)
                           (map_gauge_marker_worldbox self) (marker_src self);
          self = self\<lparr>marker_src := r\<rparr>
      in if \<not> visible then map_gauge_center_on_marker self True
         else if map_gauge_marker_left self \<le> world_x self + PIX_LIMIT
               \<or> map_gauge_marker_left self + marker_layer_w self
                    \<ge> world_x self + frame_w self - PIX_LIMIT
               \<or> map_gauge_marker_top self \<le> world_y self + PIX_LIMIT
               \<or> map_gauge_marker_top self + marker_layer_h self
                    \<ge> world_x self + frame_h self - PIX_LIMIT
         then map_gauge_center_on_marker self True
         else (True, self))"

text \<open>
  \<^verbatim>\<open>map_gauge_set_marker_position\<close>. \<^verbatim>\<open>map_math_geo_to_pixel\<close> is floating-point code of
  map-math.c, which is not among the sources: it is the parameter \<open>geo_to_pixel\<close>,
  from a geographic position (of any type \<open>'g\<close>) and a level to the returned \<^verbatim>\<open>bool\<close>
  and the two pixel coordinates. \<open>now\<close> is what \<^verbatim>\<open>SDL_GetTicks()\<close> returns; the
  elapsed time is a \<^verbatim>\<open>Uint32\<close> difference, compared unsigned.
\<close>

definition map_gauge_set_marker_position ::
  "('g \<Rightarrow> nat \<Rightarrow> bool \<times> u32 \<times> u32) \<Rightarrow> u32 \<Rightarrow> MapGauge \<Rightarrow> 'g \<Rightarrow> bool \<times> MapGauge" where
  "map_gauge_set_marker_position geo_to_pixel now self geo =
     (let self = (if roaming self \<and> now - last_manipulation self > MANIPULATE_TIMEOUT
                  then snd (map_gauge_center_on_marker (self\<lparr>roaming := False\<rparr>) True)
                  else self);
          (rv, new_x, new_y) = geo_to_pixel geo (level self)
      in if new_x \<noteq> marker_x self \<or> new_y \<noteq> marker_y self
         then
           let self = self\<lparr>marker_x := new_x, marker_y := new_y\<rparr>;
               self = (if \<not> roaming self then snd (map_gauge_follow_marker self) else self)
           in (True, self\<lparr>dirty := True\<rparr>)
         else (False, self))"

text \<open>
  \<^verbatim>\<open>map_gauge_set_level\<close>; \<^verbatim>\<open>map_math_pixel_to_geo\<close> is the parameter \<open>pixel_to_geo\<close>.
  \<open>lv\<close> is the \<^verbatim>\<open>uintf8_t\<close> argument.
\<close>

definition map_gauge_set_level ::
  "(u32 \<Rightarrow> u32 \<Rightarrow> nat \<Rightarrow> 'g) \<Rightarrow> ('g \<Rightarrow> nat \<Rightarrow> bool \<times> u32 \<times> u32) \<Rightarrow> u32 \<Rightarrow> MapGauge \<Rightarrow> nat
     \<Rightarrow> bool \<times> MapGauge" where
  "map_gauge_set_level pixel_to_geo geo_to_pixel now self lv =
     (if lv > 15 then (False, self)
      else if lv \<noteq> level self
      then
        let geo = pixel_to_geo (world_x self) (world_y self) (level self);
            (rv, new_x, new_y) = geo_to_pixel geo lv;
            geo = pixel_to_geo (marker_x self) (marker_y self) (level self);
            self = self\<lparr>level := lv\<rparr>;
            self = snd (map_gauge_set_viewport self new_x new_y False);
            self = snd (map_gauge_set_marker_position geo_to_pixel now self geo)
        in (True, self)
      else (True, self))"

subsection \<open>The per-frame update\<close>

text \<open>
  The tile indices \<^verbatim>\<open>tl_tile_x\<close>, \<^verbatim>\<open>tl_tile_y\<close>, \<^verbatim>\<open>br_tile_x\<close>, \<^verbatim>\<open>br_tile_y\<close> of
  \<^verbatim>\<open>map_gauge_update_state\<close>, in this order. Each is a \<^verbatim>\<open>uint32_t\<close> divided by 256, so
  below \<open>2 ^ 24\<close>: the \<^verbatim>\<open>uintf16_t\<close> it is stored in (a \<^verbatim>\<open>uint_fast16_t\<close>, 32 or 64 bits
  wide) and the \<^verbatim>\<open>int\<close> loop counters hold it unchanged.
\<close>

definition tile_range :: "MapGauge \<Rightarrow> nat \<times> nat \<times> nat \<times> nat" where
  "tile_range self =
     (let tl_tile_x = unat (world_x self div 256);
          tl_tile_y = unat (world_y self div 256);
          lastx = world_x self + frame_w self - 1;
          lasty = world_y self + frame_h self - 1;
          br_tile_x = unat (lastx div 256);
          br_tile_y = unat (lasty div 256)
      in (tl_tile_x, tl_tile_y, br_tile_x, br_tile_y))"

text \<open>
  \<^verbatim>\<open>tile_span\<close>: the spans are \<^verbatim>\<open>uintf16_t\<close> arithmetic, taken at 64 bits (the
  \<^verbatim>\<open>uint_fast16_t\<close> of 64-bit glibc).
\<close>

definition tile_span :: "MapGauge \<Rightarrow> nat" where
  "tile_span self =
     (let (tl_tile_x, tl_tile_y, br_tile_x, br_tile_y) = tile_range self;
          x_tile_span = (word_of_nat br_tile_x - word_of_nat tl_tile_x) + (1 :: 64 word);
          y_tile_span = (word_of_nat br_tile_y - word_of_nat tl_tile_y) + (1 :: 64 word)
      in unat (x_tile_span * y_tile_span))"

text \<open>
  The loop over the tile providers: \<open>get i\<close> is what
  \<^verbatim>\<open>map_tile_provider_get_tile(self->tile_providers[i], level, tilex, tiley)\<close> returns
  (\<open>None\<close> for \<^verbatim>\<open>NULL\<close>), the list holds the indices still to try, and the last
  argument is the local \<^verbatim>\<open>layer\<close>, which keeps its value when there is no provider.
\<close>

fun provider_loop :: "(nat \<Rightarrow> nat option) \<Rightarrow> nat list \<Rightarrow> nat option \<Rightarrow> nat option" where
  "provider_loop get [] layer = layer"
| "provider_loop get (i # rest) layer =
     (case get i of Some l \<Rightarrow> Some l | None \<Rightarrow> provider_loop get rest None)"

text \<open>
  The body of the inner tile loop, on the gauge and the local \<^verbatim>\<open>layer\<close>. A subtraction
  of a \<^verbatim>\<open>uint32_t\<close> from an \<^verbatim>\<open>int\<close> field is done unsigned and stored back as \<^verbatim>\<open>int\<close>.
\<close>

definition tile_body ::
  "(nat \<Rightarrow> nat \<Rightarrow> nat \<Rightarrow> nat \<Rightarrow> nat option) \<Rightarrow> SDL_Rect \<Rightarrow> nat \<Rightarrow> nat
     \<Rightarrow> MapGauge \<times> nat option \<Rightarrow> MapGauge \<times> nat option" where
  "tile_body get_tile viewport tiley tilex st =
     (let self = fst st;
          layer = provider_loop (\<lambda>i. get_tile i (level self) tilex tiley)
                    [0..<length (tile_providers self)] (snd st)
      in case layer of
           None \<Rightarrow> (self, layer)
         | Some l \<Rightarrow>
             let tile = \<lparr>rect_x = int TILE_SIZE * int tilex, rect_y = int TILE_SIZE * int tiley,
                         rect_w = int TILE_SIZE, rect_h = int TILE_SIZE\<rparr>;
                 n = npatches self;
                 p = patches self n;
                 p = p\<lparr>patch_src := snd (SDL_IntersectRect viewport tile (patch_src p))\<rparr>;
                 p = p\<lparr>patch_dst := patch_src p\<rparr>;
                 p = p\<lparr>patch_src := (patch_src p)\<lparr>rect_x := rect_x (patch_src p) - rect_x tile\<rparr>\<rparr>;
                 p = p\<lparr>patch_src := (patch_src p)\<lparr>rect_y := rect_y (patch_src p) - rect_y tile\<rparr>\<rparr>;
                 p = p\<lparr>patch_dst := (patch_dst p)\<lparr>rect_x :=
                        sint (word_of_int (rect_x (patch_dst p)) - world_x self)\<rparr>\<rparr>;
                 p = p\<lparr>patch_dst := (patch_dst p)\<lparr>rect_y :=
                        sint (word_of_int (rect_y (patch_dst p)) - world_y self)\<rparr>\<rparr>;
                 p = p\<lparr>patch_layer := l\<rparr>;
                 self = self\<lparr>patches := (patches self)(n := p)\<rparr>;
                 self = self\<lparr>layer_refs := (layer_refs self)(l := layer_refs self l + 1)\<rparr>;
                 self = self\<lparr>npatches := Suc n\<rparr>
             in (self, layer))"

text \<open>The loop that releases the previous frame's layers.\<close>

definition unref_patches :: "MapGauge \<Rightarrow> MapGauge" where
  "unref_patches self =
     fold (\<lambda>i s. s\<lparr>layer_refs := (layer_refs s)(patch_layer (patches s i) :=
                       layer_refs s (patch_layer (patches s i)) - 1)\<rparr>)
          [0..<npatches self] self"

text \<open>The marker's patch, the last part of \<^verbatim>\<open>map_gauge_update_state\<close>.\<close>

definition marker_patch :: "SDL_Rect \<Rightarrow> MapGauge \<Rightarrow> MapGauge" where
  "marker_patch viewport self =
     (let (marker_visible, r) = SDL_IntersectRect viewport (map_gauge_marker_worldbox self)
                                  (marker_src self);
          self = self\<lparr>marker_src := r\<rparr>
      in if marker_visible
         then
           let self = self\<lparr>marker_dst := marker_src self\<rparr>;
               self = self\<lparr>marker_src := (marker_src self)\<lparr>rect_x :=
                        sint (word_of_int (rect_x (marker_src self)) - map_gauge_marker_left self)\<rparr>\<rparr>;
               self = self\<lparr>marker_src := (marker_src self)\<lparr>rect_y :=
                        sint (word_of_int (rect_y (marker_src self)) - map_gauge_marker_top self)\<rparr>\<rparr>;
               self = self\<lparr>marker_dst := (marker_dst self)\<lparr>rect_x :=
                        sint (word_of_int (rect_x (marker_dst self)) - world_x self)\<rparr>\<rparr>;
               self = self\<lparr>marker_dst := (marker_dst self)\<lparr>rect_y :=
                        sint (word_of_int (rect_y (marker_dst self)) - world_y self)\<rparr>\<rparr>
           in self
         else
           let self = self\<lparr>marker_dst := \<lparr>rect_x = - 1, rect_y = - 1, rect_w = - 1, rect_h = - 1\<rparr>\<rparr>;
               self = self\<lparr>marker_src := marker_dst self\<rparr>
           in self)"

text \<open>
  \<^verbatim>\<open>map_gauge_update_state\<close>. \<open>realloc_ok\<close> says whether \<^verbatim>\<open>realloc\<close> returns a block
  when it is called; a block that grew keeps its entries, and its new entries hold
  whatever the map has there. \<open>layer0\<close> is the value the uninitialised local
  \<^verbatim>\<open>layer\<close> starts with. The two \<^verbatim>\<open>for\<close> loops run over the tile rows and columns from
  the top left to the bottom right index, both included.
\<close>

definition map_gauge_update_state ::
  "(nat \<Rightarrow> nat \<Rightarrow> nat \<Rightarrow> nat \<Rightarrow> nat option) \<Rightarrow> bool \<Rightarrow> nat option \<Rightarrow> MapGauge \<Rightarrow> MapGauge" where
  "map_gauge_update_state get_tile realloc_ok layer0 self =
     (let (tl_tile_x, tl_tile_y, br_tile_x, br_tile_y) = tile_range self
      in if tile_span self > apatches self \<and> \<not> realloc_ok
         then
           let stmp = apatches self;
               self = self\<lparr>apatches := tile_span self\<rparr>;
               self = self\<lparr>apatches := stmp\<rparr>
           in self
         else
           let self = (if tile_span self > apatches self
                       then self\<lparr>apatches := tile_span self\<rparr> else self);
               self = unref_patches self;
               self = self\<lparr>npatches := 0\<rparr>;
               viewport = map_gauge_viewport self;
               st = fold (\<lambda>tiley. fold (tile_body get_tile viewport tiley)
                                     [tl_tile_x..<Suc br_tile_x])
                      [tl_tile_y..<Suc br_tile_y] (self, layer0)
           in marker_patch viewport (fst st))"

subsection \<open>Construction\<close>

text \<open>
  \<^verbatim>\<open>map_gauge_init\<close>. \<open>HAVE_IGN_OACI_MAP\<close> is the compile-time switch and \<open>plane32\<close>
  the width and height of the sprite loaded from plane32.png. The product is \<^verbatim>\<open>int\<close>
  arithmetic, converted to the \<^verbatim>\<open>size_t\<close> \<^verbatim>\<open>cache_tiles\<close> (64 bits) by sign extension;
  the doubling is \<^verbatim>\<open>size_t\<close> arithmetic.
\<close>

definition map_gauge_init :: "bool \<Rightarrow> u32 \<times> u32 \<Rightarrow> MapGauge \<Rightarrow> u32 \<Rightarrow> u32 \<Rightarrow> MapGauge" where
  "map_gauge_init HAVE_IGN_OACI_MAP plane32 self w h =
     (let twidth = int_div w (word_of_nat TILE_SIZE);
          theight = int_div h (word_of_nat TILE_SIZE);
          cache_tiles = (word_of_int (sint ((MAX_int twidth 1 * MAX_int twidth 1) * 4)) :: 64 word);
          self = (if HAVE_IGN_OACI_MAP
                  then self\<lparr>tile_providers := tile_providers self @
                         [\<lparr>provider_home = ''MAPS_HOME/ign-oaci'', provider_format = ''jpg'',
                           provider_cache_tiles = unat (cache_tiles * 2)\<rparr>]\<rparr>
                  else self\<lparr>tile_providers := tile_providers self @
                         [\<lparr>provider_home = ''MAPS_HOME/osm-aip'', provider_format = ''png'',
                           provider_cache_tiles = unat (cache_tiles * 2)\<rparr>]\<rparr>);
          self = self\<lparr>tile_providers := tile_providers self @
                   [\<lparr>provider_home = ''MAPS_HOME/osm'', provider_format = ''png'',
                     provider_cache_tiles = unat (cache_tiles * 2)\<rparr>]\<rparr>;
          self = self\<lparr>marker_layer_w := fst plane32, marker_layer_h := snd plane32\<rparr>;
          self = self\<lparr>frame_w := w, frame_h := h\<rparr>
      in self)"

subsection \<open>What the statements speak of\<close>

text \<open>
  The viewport's origin lies in the world of the current level: \<open>world_x\<close> in
  \<open>[0, map_math_size level - width]\<close> and \<open>world_y\<close> in
  \<open>[0, map_math_size level - height]\<close>, as integers.
\<close>

definition origin_in_world :: "MapGauge \<Rightarrow> bool" where
  "origin_in_world self =
     (0 \<le> uint (world_x self)
      \<and> uint (world_x self) \<le> uint (map_math_size (level self)) - sint (frame_w self)
      \<and> 0 \<le> uint (world_y self)
      \<and> uint (world_y self) \<le> uint (map_math_size (level self)) - sint (frame_h self))"

text \<open>
  A gauge of 512 by 512 pixels at level 5 (a world of 8192 pixels) with its origin at
  (100, 100), following a 32 by 32 marker at (356, 356), with the two tile providers that
  \<^verbatim>\<open>map_gauge_init\<close> gives a gauge of this size and no patch yet.
\<close>

definition example_gauge :: MapGauge where
  "example_gauge =
     \<lparr>frame_w = 512, frame_h = 512, dirty = False, level = 5,
      world_x = 100, world_y = 100, marker_x = 356, marker_y = 356,
      marker_layer_w = 32, marker_layer_h = 32,
      tile_providers =
        [\<lparr>provider_home = ''MAPS_HOME/osm-aip'', provider_format = ''png'',
          provider_cache_tiles = 32\<rparr>,
         \<lparr>provider_home = ''MAPS_HOME/osm'', provider_format = ''png'',
          provider_cache_tiles = 32\<rparr>],
      roaming = False, last_manipulation = 0,
      patches = (\<lambda>i. \<lparr>patch_src = \<lparr>rect_x = 0, rect_y = 0, rect_w = 0, rect_h = 0\<rparr>,
                        patch_dst = \<lparr>rect_x = 0, rect_y = 0, rect_w = 0, rect_h = 0\<rparr>,
                        patch_layer = 0\<rparr>),
      apatches = 0, npatches = 0,
      marker_src = \<lparr>rect_x = 0, rect_y = 0, rect_w = 0, rect_h = 0\<rparr>,
      marker_dst = \<lparr>rect_x = 0, rect_y = 0, rect_w = 0, rect_h = 0\<rparr>,
      layer_refs = (\<lambda>l. 0), center_calls = 0\<rparr>"

text \<open>The same gauge at level 0, where the world is 256 pixels wide, with its origin at (0, 0).\<close>

definition level0_gauge :: MapGauge where
  "level0_gauge = example_gauge\<lparr>level := 0, world_x := 0, world_y := 0\<rparr>"

text \<open>
  Modelled from the spec: \<^verbatim>\<open>map_math_pixel_to_geo\<close> and \<^verbatim>\<open>map_math_geo_to_pixel\<close> of
  map-math.c, which is not among the sources. The spec makes the first the exact inverse
  of the second, whose output lies in \<open>[0, map_math_size level)\<close>, and has a
  geographic point keep its place when the world is scaled to another level. A
  geographic point is represented by its world pixel at level 15, the finest level, so
  that the round trip between two levels is the scaling by the ratio of the world sizes
  with no rounding but that to whole pixels.
\<close>

definition ideal_pixel_to_geo :: "u32 \<Rightarrow> u32 \<Rightarrow> nat \<Rightarrow> nat \<times> nat" where
  "ideal_pixel_to_geo px py lv = (unat px * 2 ^ (15 - lv), unat py * 2 ^ (15 - lv))"

definition ideal_geo_to_pixel :: "nat \<times> nat \<Rightarrow> nat \<Rightarrow> bool \<times> u32 \<times> u32" where
  "ideal_geo_to_pixel geo lv =
     (True,
      word_of_nat (min (fst geo div 2 ^ (15 - lv)) (unat (map_math_size lv) - 1)),
      word_of_nat (min (snd geo div 2 ^ (15 - lv)) (unat (map_math_size lv) - 1)))"

text \<open>
  The marker's bounding box meets the viewport and each of its four edges is more than
  10 pixels inside the corresponding edge of the viewport.
\<close>

definition marker_clear_of_edges :: "MapGauge \<Rightarrow> bool" where
  "marker_clear_of_edges self =
     (let left = sint (map_gauge_marker_left self); top = sint (map_gauge_marker_top self);
          right = left + sint (marker_layer_w self); bottom = top + sint (marker_layer_h self);
          vx = sint (world_x self); vy = sint (world_y self);
          vr = vx + sint (frame_w self); vb = vy + sint (frame_h self)
      in fst (SDL_IntersectRect (map_gauge_viewport self) (map_gauge_marker_worldbox self)
                (marker_src self))
         \<and> left - vx > 10 \<and> vr - right > 10 \<and> top - vy > 10 \<and> vb - bottom > 10)"

text \<open>
  Two following gauges off the diagonal of the world. In the first the viewport is at
  (0, 1000) and the marker at (300, 1300), its box at least 196 pixels from every edge. In the
  second the viewport is at (1000, 0) and the marker at (1256, 500), its box reaching 4
  pixels below the viewport's bottom edge.
\<close>

definition low_gauge :: MapGauge where
  "low_gauge = example_gauge\<lparr>world_x := 0, world_y := 1000, marker_x := 300, marker_y := 1300\<rparr>"

definition right_gauge :: MapGauge where
  "right_gauge = example_gauge\<lparr>world_x := 1000, world_y := 0, marker_x := 1256, marker_y := 500\<rparr>"

text \<open>
  A run of marker updates, each with the time it is delivered at and its position, in
  the order of delivery.
\<close>

definition marker_updates ::
  "('g \<Rightarrow> nat \<Rightarrow> bool \<times> u32 \<times> u32) \<Rightarrow> MapGauge \<Rightarrow> (u32 \<times> 'g) list \<Rightarrow> MapGauge" where
  "marker_updates geo_to_pixel self ups =
     fold (\<lambda>(now, geo) s. snd (map_gauge_set_marker_position geo_to_pixel now s geo)) ups self"

text \<open>The example gauge after a manual scroll by (5, 5) at time 1000.\<close>

definition roamed_gauge :: MapGauge where
  "roamed_gauge = snd (map_gauge_manipulate_viewport 1000 example_gauge 5 5 False)"

text \<open>The example gauge, roaming since time 1000 with its origin where it was.\<close>

definition roaming_gauge :: MapGauge where
  "roaming_gauge = example_gauge\<lparr>roaming := True, last_manipulation := 1000\<rparr>"

text \<open>The pixels a rectangle covers.\<close>

definition rect_points :: "SDL_Rect \<Rightarrow> (int \<times> int) set" where
  "rect_points r =
     {rect_x r ..< rect_x r + rect_w r} \<times> {rect_y r ..< rect_y r + rect_h r}"

text \<open>Every tile in the range under the viewport is supplied by some provider.\<close>

definition all_tiles_hit :: "(nat \<Rightarrow> nat \<Rightarrow> nat \<Rightarrow> nat \<Rightarrow> nat option) \<Rightarrow> MapGauge \<Rightarrow> bool" where
  "all_tiles_hit get_tile self =
     (let (tl_tile_x, tl_tile_y, br_tile_x, br_tile_y) = tile_range self
      in \<forall>tiley \<in> set [tl_tile_y..<Suc br_tile_y]. \<forall>tilex \<in> set [tl_tile_x..<Suc br_tile_x].
           \<exists>i \<in> set [0..<length (tile_providers self)].
             get_tile i (level self) tilex tiley \<noteq> None)"

text \<open>
  The destination rectangle that the loop body computes for the tile in row \<open>tiley\<close>
  and column \<open>tilex\<close> when neither the viewport \<open>vp\<close> nor the tile is empty: their
  intersection, moved by the origin \<open>(wx, wy)\<close>.
\<close>

definition tile_dst :: "SDL_Rect \<Rightarrow> u32 \<Rightarrow> u32 \<Rightarrow> nat \<Rightarrow> nat \<Rightarrow> SDL_Rect" where
  "tile_dst vp wx wy tiley tilex =
     \<lparr>rect_x = sint (word_of_int (max (rect_x vp) (256 * int tilex)) - wx),
      rect_y = sint (word_of_int (max (rect_y vp) (256 * int tiley)) - wy),
      rect_w = min (rect_x vp + rect_w vp) (256 * int tilex + 256) - max (rect_x vp) (256 * int tilex),
      rect_h = min (rect_y vp + rect_h vp) (256 * int tiley + 256) - max (rect_y vp) (256 * int tiley)\<rparr>"

text \<open>
  The example gauge with a block of four patches, all four in use, whose layers 0 to 3
  are referenced once each.
\<close>

definition four_patch_gauge :: MapGauge where
  "four_patch_gauge =
     example_gauge\<lparr>apatches := 4, npatches := 4,
       patches := (\<lambda>i. \<lparr>patch_src = \<lparr>rect_x = 0, rect_y = 0, rect_w = 256, rect_h = 256\<rparr>,
                         patch_dst = \<lparr>rect_x = 0, rect_y = 0, rect_w = 256, rect_h = 256\<rparr>,
                         patch_layer = i\<rparr>),
       layer_refs := (\<lambda>l. if l < 4 then 1 else 0)\<rparr>"

text \<open>
  The pixel coordinate \<open>q\<close> at level \<open>l2\<close> is the coordinate \<open>p\<close> at level \<open>l1\<close>
  scaled by the ratio of the two world sizes, within rounding: it differs from
  \<open>p * 2 ^ l2 / 2 ^ l1\<close> by less than one pixel.
\<close>

definition scaled_within_rounding :: "nat \<Rightarrow> nat \<Rightarrow> u32 \<Rightarrow> u32 \<Rightarrow> bool" where
  "scaled_within_rounding l1 l2 p q = (\<bar>uint q * 2 ^ l1 - uint p * 2 ^ l2\<bar> < 2 ^ l1)"

text \<open>
  The round trip of the two projections scales within rounding: a pixel of the world
  of a level up to 15, taken to its geographic point and back to a pixel at a level up
  to 15, comes back scaled to that level within rounding, on both axes.
\<close>

definition projections_scale ::
  "(u32 \<Rightarrow> u32 \<Rightarrow> nat \<Rightarrow> 'g) \<Rightarrow> ('g \<Rightarrow> nat \<Rightarrow> bool \<times> u32 \<times> u32) \<Rightarrow> bool" where
  "projections_scale pixel_to_geo geo_to_pixel =
     (\<forall>l1 l2 px py. l1 \<le> 15 \<and> l2 \<le> 15 \<and> px < map_math_size l1 \<and> py < map_math_size l1
        \<longrightarrow> scaled_within_rounding l1 l2 px (fst (snd (geo_to_pixel (pixel_to_geo px py l1) l2)))
          \<and> scaled_within_rounding l1 l2 py (snd (snd (geo_to_pixel (pixel_to_geo px py l1) l2))))"

text \<open>
  The roaming example gauge with its origin at (7679, 7679), the last origin that the
  world of level 5 allows a viewport of 512 pixels.
\<close>

definition edge_gauge :: MapGauge where
  "edge_gauge = roaming_gauge\<lparr>world_x := 7679, world_y := 7679\<rparr>"

section \<open>Properties\<close>

text \<open>
  C9. \<^verbatim>\<open>map_gauge_set_viewport\<close> gives the same gauge and the same return value with
  \<open>animated\<close> true as with \<open>animated\<close> false, for every gauge and every target.
\<close>

theorem set_viewport_animated_ignored:
  "map_gauge_set_viewport self x y True = map_gauge_set_viewport self x y False"
  by (simp add: map_gauge_set_viewport_def)

subsection \<open>The viewport stays in the world\<close>

lemma clamp_bounds:
  "0 \<le> sint hi \<Longrightarrow> 0 \<le> sint (clamp x 0 hi) \<and> sint (clamp x 0 hi) \<le> sint hi"
  by (auto simp add: clamp_def MIN_int_def MAX_int_def word_sless_alt)

lemma sint_word_of_int_u32:
  "- 2147483648 \<le> k \<Longrightarrow> k < 2147483648 \<Longrightarrow> sint (word_of_int k :: u32) = k"
  by (simp add: signed_of_int signed_take_bit_int_eq_self)

lemma uint_word_of_int_u32:
  "0 \<le> k \<Longrightarrow> k < 4294967296 \<Longrightarrow> uint (word_of_int k :: u32) = k"
  by (simp add: unsigned_of_int take_bit_int_eq_self)

lemma uint_eq_sint_u32: "0 \<le> sint (w::u32) \<Longrightarrow> uint w = sint w"
proof -
  assume a: "0 \<le> sint w"
  have "sint w < 2147483648" using sint_lt [of w] by simp
  then have "uint (word_of_int (sint w) :: u32) = sint w"
    using a by (intro uint_word_of_int_u32) auto
  then show ?thesis by simp
qed

lemma size_le: "lv \<le> 15 \<Longrightarrow> (256 * 2 ^ lv :: int) \<le> 8388608"
proof -
  assume "lv \<le> 15"
  then have "(2::int) ^ lv \<le> 2 ^ 15" by (intro power_increasing) auto
  then show ?thesis by simp
qed

lemma map_math_size_wi: "map_math_size lv = word_of_int (256 * 2 ^ lv)"
  by (simp add: map_math_size_def push_bit_eq_mult word_of_int_2p mult.commute)

lemma uint_map_math_size: "lv \<le> 15 \<Longrightarrow> uint (map_math_size lv) = 256 * 2 ^ lv"
  using size_le [of lv] by (simp add: map_math_size_wi uint_word_of_int_u32 del: of_int_mult of_int_power)

lemma sint_lastcoord:
  assumes "lv \<le> 15" "0 \<le> sint (w::u32)" "sint w < uint (map_math_size lv)"
  shows "sint (map_math_size lv - 1 - w) = uint (map_math_size lv) - 1 - sint w"
proof -
  have s: "uint (map_math_size lv) = 256 * 2 ^ lv" using assms(1) by (rule uint_map_math_size)
  have b: "(256 * 2 ^ lv :: int) \<le> 8388608" using assms(1) by (rule size_le)
  have "map_math_size lv - 1 - w = word_of_int (256 * 2 ^ lv - 1 - sint w)"
    by (simp add: map_math_size_wi)
  moreover have "sint (word_of_int (256 * 2 ^ lv - 1 - sint w) :: u32) = 256 * 2 ^ lv - 1 - sint w"
    using assms(2,3) s b by (intro sint_word_of_int_u32) auto
  ultimately show ?thesis using s by simp
qed

lemma clamp_coord:
  assumes "lv \<le> 15" "0 \<le> sint (w::u32)" "sint w < uint (map_math_size lv)"
  shows "0 \<le> uint (clamp x 0 (map_math_size lv - 1 - w))
       \<and> uint (clamp x 0 (map_math_size lv - 1 - w)) \<le> uint (map_math_size lv) - 1 - sint w"
proof -
  let ?hi = "map_math_size lv - 1 - w"
  have hi: "sint ?hi = uint (map_math_size lv) - 1 - sint w" using assms by (rule sint_lastcoord)
  then have "0 \<le> sint ?hi" using assms(3) by simp
  then have c: "0 \<le> sint (clamp x 0 ?hi) \<and> sint (clamp x 0 ?hi) \<le> sint ?hi" by (rule clamp_bounds)
  then have "uint (clamp x 0 ?hi) = sint (clamp x 0 ?hi)" by (simp add: uint_eq_sint_u32)
  then show ?thesis using c hi by simp
qed

lemma set_viewport_origin:
  assumes "level self \<le> 15"
    and "0 \<le> sint (frame_w self)" and "sint (frame_w self) < uint (map_math_size (level self))"
    and "0 \<le> sint (frame_h self)" and "sint (frame_h self) < uint (map_math_size (level self))"
    and "fst (map_gauge_set_viewport self x y animated)"
  shows "origin_in_world (snd (map_gauge_set_viewport self x y animated))"
proof -
  let ?lc = "map_math_size (level self) - 1"
  have r: "snd (map_gauge_set_viewport self x y animated) =
      self\<lparr>world_x := clamp x 0 (?lc - frame_w self), world_y := clamp y 0 (?lc - frame_h self),
           dirty := True\<rparr>"
    using assms(6) by (auto simp add: map_gauge_set_viewport_def Let_def split: if_splits)
  show ?thesis
    using clamp_coord [OF assms(1,2,3), of x] clamp_coord [OF assms(1,4,5), of y]
    by (simp add: r origin_in_world_def)
qed

text \<open>
  C4, as amended. At a level up to 15 and with a viewport whose width and height are not
  negative and smaller than the world of that level, a call of \<^verbatim>\<open>map_gauge_set_viewport\<close>,
  \<^verbatim>\<open>map_gauge_move_viewport\<close>, \<^verbatim>\<open>map_gauge_manipulate_viewport\<close> or
  \<^verbatim>\<open>map_gauge_center_on_marker\<close> that returns true leaves \<open>world_x\<close> in
  \<open>[0, map_math_size level - width]\<close> and \<open>world_y\<close> in
  \<open>[0, map_math_size level - height]\<close>, whatever target was requested.
\<close>

theorem set_viewport_origin_in_world:
  assumes "level self \<le> 15"
    and "0 \<le> sint (frame_w self)" and "sint (frame_w self) < uint (map_math_size (level self))"
    and "0 \<le> sint (frame_h self)" and "sint (frame_h self) < uint (map_math_size (level self))"
  shows "(fst (map_gauge_set_viewport self x y animated)
            \<longrightarrow> origin_in_world (snd (map_gauge_set_viewport self x y animated)))
       \<and> (fst (map_gauge_move_viewport self dx dy animated)
            \<longrightarrow> origin_in_world (snd (map_gauge_move_viewport self dx dy animated)))
       \<and> (fst (map_gauge_manipulate_viewport now self dx dy animated)
            \<longrightarrow> origin_in_world (snd (map_gauge_manipulate_viewport now self dx dy animated)))
       \<and> (fst (map_gauge_center_on_marker self animated)
            \<longrightarrow> origin_in_world (snd (map_gauge_center_on_marker self animated)))"
proof (intro conjI impI)
  show "origin_in_world (snd (map_gauge_set_viewport self x y animated))"
    if "fst (map_gauge_set_viewport self x y animated)"
    using assms that by (rule set_viewport_origin)
  show "origin_in_world (snd (map_gauge_move_viewport self dx dy animated))"
    if "fst (map_gauge_move_viewport self dx dy animated)"
    using that unfolding map_gauge_move_viewport_def
    by (intro set_viewport_origin assms)
  show "origin_in_world (snd (map_gauge_manipulate_viewport now self dx dy animated))"
    if "fst (map_gauge_manipulate_viewport now self dx dy animated)"
    using that assms unfolding map_gauge_manipulate_viewport_def Let_def
    by (intro set_viewport_origin) simp_all
  show "origin_in_world (snd (map_gauge_center_on_marker self animated))"
    if "fst (map_gauge_center_on_marker self animated)"
    using that assms unfolding map_gauge_center_on_marker_def Let_def
    by (intro set_viewport_origin) simp_all
qed

text \<open>The example gauge meets the hypotheses, and all four calls succeed on it.\<close>

theorem set_viewport_origin_in_world_witness:
  "level example_gauge \<le> 15
   \<and> fst (map_gauge_set_viewport example_gauge 9000 50 True)
   \<and> origin_in_world (snd (map_gauge_set_viewport example_gauge 9000 50 True))
   \<and> fst (map_gauge_move_viewport example_gauge 9000 50 True)
   \<and> origin_in_world (snd (map_gauge_move_viewport example_gauge 9000 50 True))
   \<and> fst (map_gauge_manipulate_viewport 7 example_gauge 9000 50 True)
   \<and> origin_in_world (snd (map_gauge_manipulate_viewport 7 example_gauge 9000 50 True))
   \<and> fst (map_gauge_center_on_marker example_gauge True)
   \<and> origin_in_world (snd (map_gauge_center_on_marker example_gauge True))"
proof -
  have l: "level example_gauge \<le> 15" by (simp add: example_gauge_def)
  have s: "uint (map_math_size (level example_gauge)) = 8192"
    by (simp add: example_gauge_def map_math_size_def)
  have w: "0 \<le> sint (frame_w example_gauge)" "sint (frame_w example_gauge) < uint (map_math_size (level example_gauge))"
    "0 \<le> sint (frame_h example_gauge)" "sint (frame_h example_gauge) < uint (map_math_size (level example_gauge))"
    unfolding s by (simp_all add: example_gauge_def)
  have f1: "fst (map_gauge_set_viewport example_gauge 9000 50 True)"
    by (simp add: map_gauge_set_viewport_def example_gauge_def map_math_size_def clamp_def
        MIN_int_def MAX_int_def word_sless_alt)
  have f2: "fst (map_gauge_move_viewport example_gauge 9000 50 True)"
    by (simp add: map_gauge_move_viewport_def map_gauge_set_viewport_def example_gauge_def map_math_size_def clamp_def
        MIN_int_def MAX_int_def word_sless_alt)
  have f3: "fst (map_gauge_manipulate_viewport 7 example_gauge 9000 50 True)"
    by (simp add: map_gauge_manipulate_viewport_def map_gauge_set_viewport_def example_gauge_def map_math_size_def clamp_def
        MIN_int_def MAX_int_def word_sless_alt)
  have f4: "fst (map_gauge_center_on_marker example_gauge True)"
    by (simp add: map_gauge_center_on_marker_def center_on_marker_target_def
        map_gauge_marker_left_def map_gauge_marker_top_def base_gauge_center_x_def base_gauge_center_y_def
        int_div_def map_gauge_set_viewport_def example_gauge_def map_math_size_def clamp_def
        MIN_int_def MAX_int_def word_sless_alt)
  show ?thesis
    using set_viewport_origin_in_world [OF l w, of 9000 50 True 9000 50 7] l f1 f2 f3 f4
    by blast
qed

text \<open>
  C4 as stated fails where the viewport is wider than the world: at level 0 the world is
  256 pixels wide, the upper bound \<^verbatim>\<open>map_lastcoord - 512\<close> is negative, and a successful
  call commits it as the origin.
\<close>

theorem set_viewport_origin_counterexample:
  "level level0_gauge \<le> 15
   \<and> fst (map_gauge_set_viewport level0_gauge 100 100 False)
   \<and> \<not> origin_in_world (snd (map_gauge_set_viewport level0_gauge 100 100 False))"
  by (simp add: level0_gauge_def map_gauge_set_viewport_def example_gauge_def map_math_size_def clamp_def
        MIN_int_def MAX_int_def word_sless_alt origin_in_world_def)

subsection \<open>Rejected and idle level changes\<close>

text \<open>
  C7. \<^verbatim>\<open>map_gauge_set_level\<close> with a level above 15 returns false and the gauge it was
  given, every field unchanged; with a level up to 15 that is the current one it returns
  true and again the gauge unchanged.
\<close>

theorem set_level_rejected_or_same:
  "(15 < lv \<longrightarrow> map_gauge_set_level pixel_to_geo geo_to_pixel now self lv = (False, self))
   \<and> (lv \<le> 15 \<and> lv = level self
        \<longrightarrow> map_gauge_set_level pixel_to_geo geo_to_pixel now self lv = (True, self))"
  by (simp add: map_gauge_set_level_def)

text \<open>Level 16 is rejected on the example gauge, and level 5 is the level it has.\<close>

theorem set_level_rejected_or_same_witness:
  "(15::nat) < 16
   \<and> map_gauge_set_level ideal_pixel_to_geo ideal_geo_to_pixel 0 example_gauge 16
       = (False, example_gauge)
   \<and> (5::nat) \<le> 15 \<and> 5 = level example_gauge
   \<and> map_gauge_set_level ideal_pixel_to_geo ideal_geo_to_pixel 0 example_gauge 5
       = (True, example_gauge)"
  using set_level_rejected_or_same [of 16 ideal_pixel_to_geo ideal_geo_to_pixel 0 example_gauge]
    set_level_rejected_or_same [of 5 ideal_pixel_to_geo ideal_geo_to_pixel 0 example_gauge]
  by (simp add: example_gauge_def)

subsection \<open>A failed growth of the patch block\<close>

text \<open>
  C8. When the tiles under the viewport outnumber the allocated patches and \<^verbatim>\<open>realloc\<close>
  fails, \<^verbatim>\<open>map_gauge_update_state\<close> returns the gauge it was given: the patches, their
  count, the reference counts of their layers and \<open>apatches\<close> are as before. The next
  frame's update therefore starts from the same gauge and does what this one would have
  done.
\<close>

theorem update_state_realloc_failure:
  assumes "tile_span self > apatches self"
  shows "map_gauge_update_state get_tile False layer0 self = self
       \<and> map_gauge_update_state get_tile realloc_ok layer1
            (map_gauge_update_state get_tile False layer0 self)
          = map_gauge_update_state get_tile realloc_ok layer1 self"
  using assms by (simp add: map_gauge_update_state_def Let_def split: prod.splits)

lemma tile_range_example: "tile_range example_gauge = (0, 0, 2, 2)"
  by (simp add: tile_range_def example_gauge_def unat_div)

lemma tile_span_example: "tile_span example_gauge = 9"
  by (simp add: tile_span_def tile_range_example)

lemma tile_span_four_patch: "tile_span four_patch_gauge = 9"
  by (simp add: tile_span_def tile_range_def four_patch_gauge_def example_gauge_def unat_div)

text \<open>
  The gauge with four patches allocated and in use has nine tiles under its viewport;
  after the failed update it still has its four patches, each layer referenced once.
\<close>

theorem update_state_realloc_failure_witness:
  "tile_span four_patch_gauge > apatches four_patch_gauge
   \<and> map_gauge_update_state (\<lambda>i lv x y. Some 1) False None four_patch_gauge = four_patch_gauge
   \<and> npatches (map_gauge_update_state (\<lambda>i lv x y. Some 1) False None four_patch_gauge) = 4
   \<and> apatches (map_gauge_update_state (\<lambda>i lv x y. Some 1) False None four_patch_gauge) = 4
   \<and> layer_refs (map_gauge_update_state (\<lambda>i lv x y. Some 1) False None four_patch_gauge) 0 = 1"
proof -
  have a: "tile_span four_patch_gauge > apatches four_patch_gauge"
    by (simp add: tile_span_four_patch) (simp add: four_patch_gauge_def)
  have "map_gauge_update_state (\<lambda>i lv x y. Some 1) False None four_patch_gauge = four_patch_gauge"
    using update_state_realloc_failure [OF a, of "\<lambda>i lv x y. Some 1" None] by simp
  then show ?thesis
    using a by (simp add: four_patch_gauge_def)
qed


subsection \<open>The capacity of the tile caches\<close>

lemma sdiv_256_lower: "- 2147483648 \<le> sint (w::u32) sdiv 256"
proof -
  have a: "\<bar>sint w\<bar> \<le> 2147483648" using sint_ge [of w] sint_lt [of w] by simp
  have "- \<bar>sint w\<bar> \<le> sint w sdiv 256" using sdiv_int_range [of "sint w" 256] by simp
  then show ?thesis using a by linarith
qed

lemma sint_twidth:
  assumes "sint (w::u32) sdiv 256 \<le> 23170"
  shows "sint (int_div w (word_of_nat TILE_SIZE)) = sint w sdiv 256"
  using assms sdiv_256_lower [of w]
  by (simp add: int_div_def TILE_SIZE_def sint_word_of_int_u32)

lemma cache_tiles_value:
  assumes "sint (t::u32) \<le> 23170"
  shows "unat ((word_of_int (sint ((MAX_int t 1 * MAX_int t 1) * 4)) :: 64 word) * 2)
         = 8 * (nat (max (sint t) 1))\<^sup>2"
proof -
  define m where "m = max (sint t) 1"
  have m: "1 \<le> m" "m \<le> 23170" using assms by (simp_all add: m_def)
  have M: "MAX_int t 1 = word_of_int m"
    by (simp add: MAX_int_def word_sless_alt m_def max_def)
  have "m * m \<le> 23170 * 23170" using m by (intro mult_mono) auto
  then have mm: "m * m \<le> 536848900" by simp
  have mm0: "0 \<le> m * m" by simp
  have "(MAX_int t 1 * MAX_int t 1) * 4 = (word_of_int (m * m * 4) :: u32)"
    by (simp add: M)
  moreover have "sint (word_of_int (m * m * 4) :: u32) = m * m * 4"
    using mm mm0 by (intro sint_word_of_int_u32) linarith+
  ultimately have "(word_of_int (sint ((MAX_int t 1 * MAX_int t 1) * 4)) :: 64 word) * 2
      = word_of_int (m * m * 8)"
    by simp
  moreover have "unat (word_of_int (m * m * 8) :: 64 word) = nat (m * m * 8)"
  proof -
    have "uint (word_of_int (m * m * 8) :: 64 word) = m * m * 8"
      using mm mm0 by (simp add: unsigned_of_int take_bit_int_eq_self del: of_int_mult)
    then show ?thesis by (simp add: unat_eq_nat_uint del: of_int_mult)
  qed
  moreover have "nat (m * m * 8) = 8 * (nat m)\<^sup>2"
    using m by (simp add: power2_eq_square nat_mult_distrib)
  ultimately show ?thesis by (simp add: m_def)
qed

text \<open>
  C10. For a gauge of width \<open>w\<close> and height \<open>h\<close>, \<^verbatim>\<open>map_gauge_init\<close> builds its two
  tile providers with a capacity of \<open>8 * max(w / 256, 1)\<^sup>2\<close> tiles, with C's division:
  the same for every height, and at least 8. The width is one whose tile count squared
  and quadrupled fits an \<^verbatim>\<open>int\<close>, up to 23170 tiles; beyond, the product overflows, which C
  leaves undefined.
\<close>

theorem init_cache_capacity:
  assumes "sint w sdiv 256 \<le> 23170"
  shows "map provider_cache_tiles (tile_providers (map_gauge_init HAVE_IGN_OACI_MAP plane32 self w h))
           = map provider_cache_tiles (tile_providers self)
             @ [8 * (nat (max (sint w sdiv 256) 1))\<^sup>2, 8 * (nat (max (sint w sdiv 256) 1))\<^sup>2]
       \<and> tile_providers (map_gauge_init HAVE_IGN_OACI_MAP plane32 self w h)
           = tile_providers (map_gauge_init HAVE_IGN_OACI_MAP plane32 self w h')
       \<and> 8 \<le> 8 * (nat (max (sint w sdiv 256) 1))\<^sup>2"
proof -
  have t: "sint (int_div w (word_of_nat TILE_SIZE)) \<le> 23170"
    using assms by (simp add: sint_twidth)
  have c: "unat ((word_of_int (sint ((MAX_int (int_div w (word_of_nat TILE_SIZE)) 1
               * MAX_int (int_div w (word_of_nat TILE_SIZE)) 1) * 4)) :: 64 word) * 2)
           = 8 * (nat (max (sint w sdiv 256) 1))\<^sup>2"
    using cache_tiles_value [OF t] assms by (simp add: sint_twidth)
  have "1 \<le> nat (max (sint w sdiv 256) 1)" by simp
  then have "1 \<le> (nat (max (sint w sdiv 256) 1))\<^sup>2"
    by (metis one_le_power)
  then have g: "8 \<le> 8 * (nat (max (sint w sdiv 256) 1))\<^sup>2" by simp
  show ?thesis
    using c g by (simp add: map_gauge_init_def Let_def)
qed

text \<open>A gauge of 512 by 384 pixels gets 32 tiles, one of 100 by 100 pixels gets 8.\<close>

theorem init_cache_capacity_witness:
  "sint (512 :: u32) sdiv 256 \<le> 23170
   \<and> map provider_cache_tiles (tile_providers (map_gauge_init False (32, 32) (example_gauge\<lparr>tile_providers := []\<rparr>) 512 384))
       = [32, 32]
   \<and> map provider_cache_tiles (tile_providers (map_gauge_init False (32, 32) (example_gauge\<lparr>tile_providers := []\<rparr>) 100 100))
       = [8, 8]"
proof -
  have a: "sint (512 :: u32) sdiv 256 = 2" by (simp add: signed_divide_int_def)
  have b: "sint (100 :: u32) sdiv 256 = 0" by (simp add: signed_divide_int_def)
  show ?thesis
    using init_cache_capacity [of 512 False "(32, 32)" "example_gauge\<lparr>tile_providers := []\<rparr>" 384 384]
      init_cache_capacity [of 100 False "(32, 32)" "example_gauge\<lparr>tile_providers := []\<rparr>" 100 100]
    by (simp add: a b)
qed

subsection \<open>Following the marker\<close>

lemmas eval_defs = map_gauge_follow_marker_def map_gauge_center_on_marker_def center_on_marker_target_def
  map_gauge_marker_left_def map_gauge_marker_top_def base_gauge_center_x_def base_gauge_center_y_def
  int_div_def map_gauge_set_viewport_def map_math_size_def clamp_def
  MIN_int_def MAX_int_def word_sless_alt SDL_IntersectRect_def SDL_RectEmpty_def
  map_gauge_viewport_def map_gauge_marker_worldbox_def PIX_LIMIT_def signed_divide_int_def

text \<open>
  C1, at two inputs where the code departs from it. The fourth test of
  \<^verbatim>\<open>map_gauge_follow_marker\<close> compares the marker's bottom edge with
  \<^verbatim>\<open>world_x + height - PIX_LIMIT\<close>. In the first gauge the marker is clear of every
  edge and the gauge recenters all the same, moving the origin from (0, 1000) to
  (28, 1028). In the second the marker's box ends at 516, below the viewport's bottom
  edge at 512, and the gauge does not recenter.
\<close>

theorem follow_marker_reads_world_x:
  "\<not> roaming low_gauge \<and> marker_clear_of_edges low_gauge
   \<and> world_x low_gauge = 0 \<and> world_y low_gauge = 1000
   \<and> world_x (snd (map_gauge_follow_marker low_gauge)) = 28
   \<and> world_y (snd (map_gauge_follow_marker low_gauge)) = 1028
   \<and> center_calls (snd (map_gauge_follow_marker low_gauge)) = Suc (center_calls low_gauge)
   \<and> \<not> roaming right_gauge
   \<and> sint (map_gauge_marker_top right_gauge) + sint (marker_layer_h right_gauge) = 516
   \<and> sint (world_y right_gauge) + sint (frame_h right_gauge) = 512
   \<and> center_calls (snd (map_gauge_follow_marker right_gauge)) = center_calls right_gauge
   \<and> world_x (snd (map_gauge_follow_marker right_gauge)) = world_x right_gauge
   \<and> world_y (snd (map_gauge_follow_marker right_gauge)) = world_y right_gauge"
  by (simp add: low_gauge_def right_gauge_def example_gauge_def marker_clear_of_edges_def eval_defs)

text \<open>
  C2, at an input where the code departs from it. On the example gauge the marker at
  (356, 356) is at the center of the 512 by 512 viewport whose origin is (100, 100), and
  \<open>marker - size / 2\<close> is that origin. \<^verbatim>\<open>map_gauge_center_on_marker\<close> starts from the
  marker's left and top edge instead: its target is (84, 84), half the sprite further,
  and the call moves the origin there.
\<close>

theorem center_on_marker_offset:
  "center_on_marker_target example_gauge = (84, 84)
   \<and> (marker_x example_gauge - int_div (frame_w example_gauge) 2,
       marker_y example_gauge - int_div (frame_h example_gauge) 2) = (100, 100)
   \<and> world_x example_gauge = 100 \<and> world_y example_gauge = 100
   \<and> world_x (snd (map_gauge_center_on_marker example_gauge True)) = 84
   \<and> world_y (snd (map_gauge_center_on_marker example_gauge True)) = 84"
  by (simp add: example_gauge_def eval_defs)

subsection \<open>The roaming timeout\<close>

lemma set_viewport_fields:
  "roaming (snd (map_gauge_set_viewport s x y a)) = roaming s"
  "last_manipulation (snd (map_gauge_set_viewport s x y a)) = last_manipulation s"
  "center_calls (snd (map_gauge_set_viewport s x y a)) = center_calls s"
  "marker_x (snd (map_gauge_set_viewport s x y a)) = marker_x s"
  "marker_y (snd (map_gauge_set_viewport s x y a)) = marker_y s"
  "level (snd (map_gauge_set_viewport s x y a)) = level s"
  "frame_w (snd (map_gauge_set_viewport s x y a)) = frame_w s"
  "frame_h (snd (map_gauge_set_viewport s x y a)) = frame_h s"
  by (simp_all add: map_gauge_set_viewport_def Let_def)

lemma set_viewport_world:
  "world_x (snd (map_gauge_set_viewport s x y a))
     = clamp x 0 (map_math_size (level s) - 1 - frame_w s)"
  "world_y (snd (map_gauge_set_viewport s x y a))
     = clamp y 0 (map_math_size (level s) - 1 - frame_h s)"
  by (simp_all add: map_gauge_set_viewport_def Let_def)

lemma center_on_marker_fields:
  "roaming (snd (map_gauge_center_on_marker s a)) = roaming s"
  "last_manipulation (snd (map_gauge_center_on_marker s a)) = last_manipulation s"
  "center_calls (snd (map_gauge_center_on_marker s a)) = Suc (center_calls s)"
  "marker_x (snd (map_gauge_center_on_marker s a)) = marker_x s"
  "marker_y (snd (map_gauge_center_on_marker s a)) = marker_y s"
  "level (snd (map_gauge_center_on_marker s a)) = level s"
  "frame_w (snd (map_gauge_center_on_marker s a)) = frame_w s"
  "frame_h (snd (map_gauge_center_on_marker s a)) = frame_h s"
  by (simp_all add: map_gauge_center_on_marker_def Let_def set_viewport_fields)

lemma follow_marker_fields:
  "roaming (snd (map_gauge_follow_marker s)) = roaming s"
  "last_manipulation (snd (map_gauge_follow_marker s)) = last_manipulation s"
  "marker_x (snd (map_gauge_follow_marker s)) = marker_x s"
  "marker_y (snd (map_gauge_follow_marker s)) = marker_y s"
  "level (snd (map_gauge_follow_marker s)) = level s"
  by (simp_all add: map_gauge_follow_marker_def Let_def center_on_marker_fields split: prod.splits)

lemma follow_marker_calls:
  "center_calls (snd (map_gauge_follow_marker s)) = center_calls s
   \<or> center_calls (snd (map_gauge_follow_marker s)) = Suc (center_calls s)"
  by (simp add: map_gauge_follow_marker_def Let_def center_on_marker_fields split: prod.splits)

lemma set_marker_position_roaming:
  assumes "roaming s" and "now - last_manipulation s \<le> MANIPULATE_TIMEOUT"
  shows "roaming (snd (map_gauge_set_marker_position g2p now s geo))"
    and "last_manipulation (snd (map_gauge_set_marker_position g2p now s geo)) = last_manipulation s"
    and "world_x (snd (map_gauge_set_marker_position g2p now s geo)) = world_x s"
    and "world_y (snd (map_gauge_set_marker_position g2p now s geo)) = world_y s"
    and "center_calls (snd (map_gauge_set_marker_position g2p now s geo)) = center_calls s"
  using assms
  by (simp_all add: map_gauge_set_marker_position_def Let_def not_less [symmetric] split: prod.splits)

lemma marker_updates_roaming:
  assumes "roaming s" and "\<forall>(now, geo) \<in> set ups. now - last_manipulation s \<le> MANIPULATE_TIMEOUT"
  shows "roaming (marker_updates g2p s ups)
       \<and> last_manipulation (marker_updates g2p s ups) = last_manipulation s
       \<and> world_x (marker_updates g2p s ups) = world_x s
       \<and> world_y (marker_updates g2p s ups) = world_y s
       \<and> center_calls (marker_updates g2p s ups) = center_calls s"
  using assms
proof (induction ups arbitrary: s)
  case Nil
  then show ?case by (simp add: marker_updates_def)
next
  case (Cons u ups)
  obtain now geo where u: "u = (now, geo)" by (cases u)
  let ?s = "snd (map_gauge_set_marker_position g2p now s geo)"
  have el: "now - last_manipulation s \<le> MANIPULATE_TIMEOUT" using Cons.prems(2) u by simp
  note st = set_marker_position_roaming [OF Cons.prems(1) el, of g2p geo]
  have "\<forall>(now, geo) \<in> set ups. now - last_manipulation ?s \<le> MANIPULATE_TIMEOUT"
    using Cons.prems(2) st(2) by simp
  from Cons.IH [OF st(1) this] st
  show ?case by (simp add: marker_updates_def u)
qed

lemma set_marker_position_timeout:
  assumes "roaming s" and "now - last_manipulation s > MANIPULATE_TIMEOUT"
  shows "\<not> roaming (snd (map_gauge_set_marker_position g2p now s geo))"
    and "center_calls (snd (map_gauge_set_marker_position g2p now s geo)) = center_calls s + 1
       \<or> center_calls (snd (map_gauge_set_marker_position g2p now s geo)) = center_calls s + 2"
    and "snd (g2p geo (level s)) = (marker_x s, marker_y s)
         \<Longrightarrow> center_calls (snd (map_gauge_set_marker_position g2p now s geo)) = center_calls s + 1"
proof -
  let ?c = "snd (map_gauge_center_on_marker (s\<lparr>roaming := False\<rparr>) True)"
  obtain rv nx ny where g: "g2p geo (level s) = (rv, nx, ny)" by (cases "g2p geo (level s)")
  have c: "\<not> roaming ?c" "center_calls ?c = Suc (center_calls s)" "level ?c = level s"
    "marker_x ?c = marker_x s" "marker_y ?c = marker_y s"
    by (simp_all add: center_on_marker_fields)
  let ?m = "?c\<lparr>marker_x := nx, marker_y := ny\<rparr>"
  have f: "center_calls (snd (map_gauge_follow_marker ?m)) = Suc (center_calls s)
         \<or> center_calls (snd (map_gauge_follow_marker ?m)) = Suc (Suc (center_calls s))"
    using follow_marker_calls [of ?m] c(2) by simp
  have r: "\<not> roaming (snd (map_gauge_follow_marker ?m))"
    using c(1) by (simp add: follow_marker_fields)
  show "\<not> roaming (snd (map_gauge_set_marker_position g2p now s geo))"
    using assms c r by (simp add: map_gauge_set_marker_position_def Let_def g)
  show "center_calls (snd (map_gauge_set_marker_position g2p now s geo)) = center_calls s + 1
       \<or> center_calls (snd (map_gauge_set_marker_position g2p now s geo)) = center_calls s + 2"
    using assms c f by (auto simp add: map_gauge_set_marker_position_def Let_def g)
  show "center_calls (snd (map_gauge_set_marker_position g2p now s geo)) = center_calls s + 1"
    if "snd (g2p geo (level s)) = (marker_x s, marker_y s)"
    using assms c that by (simp add: map_gauge_set_marker_position_def Let_def g)
qed

text \<open>
  C5, as amended. After \<^verbatim>\<open>map_gauge_manipulate_viewport\<close> at time \<open>t0\<close> the gauge is
  roaming. Every marker update delivered while the elapsed time is at most 2000 ms leaves
  it roaming, with its origin where it was and no call of
  \<^verbatim>\<open>map_gauge_center_on_marker\<close>. The first update delivered after more than 2000 ms
  leaves it following and recenters: once from the timeout, and once more if the follow
  rule asks for it after the marker has moved; exactly once if the marker's pixel is
  unchanged.
\<close>

theorem roaming_timeout:
  assumes "s0 = snd (map_gauge_manipulate_viewport t0 g dx dy animated)"
    and "\<forall>(now, geo) \<in> set ups. now - t0 \<le> MANIPULATE_TIMEOUT"
    and "s1 = marker_updates geo_to_pixel s0 ups"
    and "now - t0 > MANIPULATE_TIMEOUT"
    and "s2 = snd (map_gauge_set_marker_position geo_to_pixel now s1 geo)"
  shows "roaming s0 \<and> roaming s1
       \<and> world_x s1 = world_x s0 \<and> world_y s1 = world_y s0
       \<and> center_calls s1 = center_calls s0
       \<and> \<not> roaming s2
       \<and> (center_calls s2 = center_calls s1 + 1 \<or> center_calls s2 = center_calls s1 + 2)
       \<and> (snd (geo_to_pixel geo (level s1)) = (marker_x s1, marker_y s1)
            \<longrightarrow> center_calls s2 = center_calls s1 + 1)"
proof -
  have r0: "roaming s0" and l0: "last_manipulation s0 = t0"
    by (simp_all add: assms(1) map_gauge_manipulate_viewport_def Let_def set_viewport_fields)
  have "\<forall>(now, geo) \<in> set ups. now - last_manipulation s0 \<le> MANIPULATE_TIMEOUT"
    using assms(2) l0 by simp
  from marker_updates_roaming [OF r0 this, of geo_to_pixel]
  have s1: "roaming s1" "last_manipulation s1 = t0" "world_x s1 = world_x s0"
    "world_y s1 = world_y s0" "center_calls s1 = center_calls s0"
    by (simp_all add: assms(3) l0)
  have el: "now - last_manipulation s1 > MANIPULATE_TIMEOUT" using assms(4) s1(2) by simp
  note t = set_marker_position_timeout [OF s1(1) el, of geo_to_pixel geo]
  show ?thesis
    using r0 s1 t unfolding assms(5) by blast
qed

lemma roamed_gauge_eq:
  "roamed_gauge = example_gauge\<lparr>last_manipulation := 1000, roaming := True,
                     world_x := 105, world_y := 105, dirty := True\<rparr>"
  by (simp add: roamed_gauge_def map_gauge_manipulate_viewport_def example_gauge_def eval_defs)

text \<open>
  Updates at 500 and at 2000 ms after the scroll leave the gauge roaming; the one at
  2001 ms puts it back to following.
\<close>

theorem roaming_timeout_witness:
  "(1500 :: u32) - 1000 \<le> MANIPULATE_TIMEOUT \<and> (3000 :: u32) - 1000 \<le> MANIPULATE_TIMEOUT
   \<and> (3001 :: u32) - 1000 > MANIPULATE_TIMEOUT
   \<and> roaming (marker_updates ideal_geo_to_pixel roamed_gauge
         [(1500, (368640, 368640)), (3000, (378880, 378880))])
   \<and> center_calls (marker_updates ideal_geo_to_pixel roamed_gauge
         [(1500, (368640, 368640)), (3000, (378880, 378880))]) = center_calls roamed_gauge
   \<and> \<not> roaming (snd (map_gauge_set_marker_position ideal_geo_to_pixel 3001
         (marker_updates ideal_geo_to_pixel roamed_gauge
            [(1500, (368640, 368640)), (3000, (378880, 378880))]) (389120, 389120)))"
proof -
  have h2: "\<forall>(now, geo) \<in> set [(1500 :: u32, (368640 :: nat, 368640 :: nat)), (3000, (378880, 378880))].
              now - 1000 \<le> MANIPULATE_TIMEOUT"
    by (simp add: MANIPULATE_TIMEOUT_def)
  have h4: "(3001 :: u32) - 1000 > MANIPULATE_TIMEOUT" by (simp add: MANIPULATE_TIMEOUT_def)
  show ?thesis
    using roaming_timeout [OF roamed_gauge_def h2 refl h4 refl, of ideal_geo_to_pixel "(389120, 389120)"] h4
    by (simp add: MANIPULATE_TIMEOUT_def)
qed

text \<open>
  C5 as stated fails at the bound: an update at exactly 2000 ms leaves the gauge roaming
  and recenters nothing. And an update after the timeout that moves the marker out of
  the recentered viewport recenters twice.
\<close>

theorem roaming_timeout_counterexample:
  "roaming roamed_gauge \<and> (3000 :: u32) - last_manipulation roamed_gauge = 2000
   \<and> roaming (snd (map_gauge_set_marker_position ideal_geo_to_pixel 3000 roamed_gauge
                     (368640, 368640)))
   \<and> center_calls (snd (map_gauge_set_marker_position ideal_geo_to_pixel 3000 roamed_gauge
                     (368640, 368640))) = center_calls roamed_gauge
   \<and> (3001 :: u32) - last_manipulation roamed_gauge = 2001
   \<and> center_calls (snd (map_gauge_set_marker_position ideal_geo_to_pixel 3001 roamed_gauge
                     (2048000, 2048000))) = center_calls roamed_gauge + 2"
  by (simp add: roamed_gauge_eq map_gauge_set_marker_position_def ideal_geo_to_pixel_def
      MANIPULATE_TIMEOUT_def example_gauge_def eval_defs)

subsection \<open>Changing the level\<close>

lemma set_marker_position_marker:
  "level (snd (map_gauge_set_marker_position g2p now s geo)) = level s"
  "marker_x (snd (map_gauge_set_marker_position g2p now s geo)) = fst (snd (g2p geo (level s)))"
  "marker_y (snd (map_gauge_set_marker_position g2p now s geo)) = snd (snd (g2p geo (level s)))"
  by (auto simp add: map_gauge_set_marker_position_def Let_def center_on_marker_fields
      follow_marker_fields split: prod.splits)

lemma clamp_inside: "0 \<le>s x \<Longrightarrow> x \<le>s hi \<Longrightarrow> clamp x 0 hi = x"
proof -
  assume a: "0 \<le>s x" "x \<le>s hi"
  have 1: "MAX_int x 0 = x"
  proof (cases "0 <s x")
    case True then show ?thesis by (simp add: MAX_int_def)
  next
    case False
    then have "sint x = sint (0 :: u32)" using a(1) by (simp add: word_sless_alt word_sle_eq)
    then have "x = 0" by (rule signed_word_eqI)
    then show ?thesis by (simp add: MAX_int_def)
  qed
  have 2: "MIN_int x hi = x"
  proof (cases "x <s hi")
    case True then show ?thesis by (simp add: MIN_int_def)
  next
    case False
    then have "sint x = sint hi" using a(2) by (simp add: word_sless_alt word_sle_eq)
    then have "x = hi" by (rule signed_word_eqI)
    then show ?thesis by (simp add: MIN_int_def)
  qed
  show ?thesis by (simp add: clamp_def 1 2)
qed

lemma follow_marker_world:
  "(world_x (snd (map_gauge_follow_marker s)) = world_x s
      \<and> world_y (snd (map_gauge_follow_marker s)) = world_y s)
   \<or> center_calls s < center_calls (snd (map_gauge_follow_marker s))"
  by (simp add: map_gauge_follow_marker_def Let_def center_on_marker_fields split: prod.splits)

lemma set_marker_position_world:
  "(world_x (snd (map_gauge_set_marker_position g2p now s geo)) = world_x s
      \<and> world_y (snd (map_gauge_set_marker_position g2p now s geo)) = world_y s)
   \<or> center_calls s < center_calls (snd (map_gauge_set_marker_position g2p now s geo))"
proof (cases "roaming s \<and> now - last_manipulation s > MANIPULATE_TIMEOUT")
  case True
  then show ?thesis
    using set_marker_position_timeout(2) [of s now g2p geo] by auto
next
  case False
  obtain rv nx ny where g: "g2p geo (level s) = (rv, nx, ny)" by (cases "g2p geo (level s)")
  show ?thesis
    using False follow_marker_world [of "s\<lparr>marker_x := nx, marker_y := ny\<rparr>"]
    by (auto simp add: map_gauge_set_marker_position_def Let_def g)
qed

lemma scale_floor:
  assumes "l1 \<le> 15" "l2 \<le> 15" "P < 256 * 2 ^ l1"
  shows "(P * 2 ^ (15 - l1) div 2 ^ (15 - l2)) * 2 ^ l1 \<le> P * 2 ^ l2"
    and "P * 2 ^ l2 < (P * 2 ^ (15 - l1) div 2 ^ (15 - l2)) * 2 ^ l1 + (2 ^ l1 :: nat)"
    and "P * 2 ^ (15 - l1) div 2 ^ (15 - l2) < (256 * 2 ^ l2 :: nat)"
proof -
  define a :: nat where "a = 2 ^ (15 - l1)"
  define b :: nat where "b = 2 ^ (15 - l2)"
  define A :: nat where "A = 2 ^ l1"
  define B :: nat where "B = 2 ^ l2"
  define n where "n = P * a div b"
  define r where "r = P * a mod b"
  have aA: "a * A = 32768" using assms(1) by (simp add: a_def A_def flip: power_add)
  have bB: "b * B = 32768" using assms(2) by (simp add: b_def B_def flip: power_add)
  have b0: "0 < b" by (simp add: b_def)
  have A0: "0 < A" by (simp add: A_def)
  have B0: "0 < B" by (simp add: B_def)
  have rb: "r < b" using b0 by (simp add: r_def)
  have e: "P * a = n * b + r" by (simp add: n_def r_def)
  have "P * a * A * B = (n * b + r) * A * B" by (simp add: e)
  then have "P * B * (a * A) = n * A * (b * B) + r * A * B" by (simp add: algebra_simps)
  then have eq: "32768 * (P * B) = 32768 * (n * A) + r * A * B" by (simp add: aA bB)
  have "r * A * B < b * A * B" using rb A0 B0 by simp
  also have "\<dots> = 32768 * A" using bB by (simp add: algebra_simps)
  finally have rl: "r * A * B < 32768 * A" .
  have 1: "n * A \<le> P * B" using eq by (simp add: algebra_simps)
  have 2: "P * B < n * A + A" using eq rl by linarith
  have "n * A \<le> P * B" by (rule 1)
  also have "P * B < 256 * A * B" using assms(3) B0 by (simp add: A_def)
  finally have "n * A < (256 * B) * A" by (simp add: algebra_simps)
  then have 3: "n < 256 * B" using A0 by simp
  show "(P * 2 ^ (15 - l1) div 2 ^ (15 - l2)) * 2 ^ l1 \<le> P * 2 ^ l2"
    using 1 by (simp add: n_def a_def b_def A_def B_def)
  show "P * 2 ^ l2 < (P * 2 ^ (15 - l1) div 2 ^ (15 - l2)) * 2 ^ l1 + (2 ^ l1 :: nat)"
    using 2 by (simp add: n_def a_def b_def A_def B_def)
  show "P * 2 ^ (15 - l1) div 2 ^ (15 - l2) < (256 * 2 ^ l2 :: nat)"
    using 3 by (simp add: n_def a_def b_def A_def B_def)
qed

lemma unat_map_math_size: "lv \<le> 15 \<Longrightarrow> unat (map_math_size lv) = 256 * 2 ^ lv"
proof -
  assume l: "lv \<le> 15"
  have "int (unat (map_math_size lv)) = 256 * 2 ^ lv"
    using uint_map_math_size [OF l] by (simp only: uint_nat)
  also have "\<dots> = int (256 * 2 ^ lv)" by simp
  finally show ?thesis by (simp only: of_nat_eq_iff)
qed

lemma ideal_scaled:
  assumes "l1 \<le> 15" "l2 \<le> 15" "p < map_math_size l1"
  shows "scaled_within_rounding l1 l2 p
           (word_of_nat (min (unat p * 2 ^ (15 - l1) div 2 ^ (15 - l2)) (unat (map_math_size l2) - 1)))"
proof -
  define n where "n = unat p * 2 ^ (15 - l1) div 2 ^ (15 - l2)"
  have P: "unat p < 256 * 2 ^ l1"
    using assms(3) by (simp only: word_less_nat_alt unat_map_math_size [OF assms(1)])
  note f = scale_floor [OF assms(1,2) P, folded n_def]
  have "(2::nat) ^ l2 \<le> 2 ^ 15" using assms(2) by (intro power_increasing) auto
  then have n32: "n < 4294967296" using f(3) by simp
  have m: "min n (unat (map_math_size l2) - 1) = n"
    using f(3) by (simp add: unat_map_math_size [OF assms(2)])
  have "unat (word_of_nat n :: u32) = n"
    using n32 by (simp add: unat_of_nat)
  then have u: "uint (word_of_nat n :: u32) = int n"
    by (simp only: uint_nat)
  have up: "uint p = int (unat p)" by (simp only: uint_nat)
  have d: "\<bar>int n * 2 ^ l1 - int (unat p) * 2 ^ l2\<bar> < 2 ^ l1"
  proof -
    have "int (n * 2 ^ l1) \<le> int (unat p * 2 ^ l2)" using f(1) by (simp only: of_nat_le_iff)
    moreover have "int (unat p * 2 ^ l2) < int (n * 2 ^ l1 + 2 ^ l1)"
      using f(2) by (simp only: of_nat_less_iff)
    ultimately show ?thesis by simp
  qed
  show ?thesis
    unfolding scaled_within_rounding_def n_def [symmetric] m u up by (rule d)
qed

lemma ideal_projections_scale: "projections_scale ideal_pixel_to_geo ideal_geo_to_pixel"
  unfolding projections_scale_def
proof (intro allI impI, elim conjE)
  fix l1 l2 :: nat and px py :: u32
  assume a: "l1 \<le> 15" "l2 \<le> 15" "px < map_math_size l1" "py < map_math_size l1"
  have g: "ideal_geo_to_pixel (ideal_pixel_to_geo px py l1) l2
     = (True,
        word_of_nat (min (unat px * 2 ^ (15 - l1) div 2 ^ (15 - l2)) (unat (map_math_size l2) - 1)),
        word_of_nat (min (unat py * 2 ^ (15 - l1) div 2 ^ (15 - l2)) (unat (map_math_size l2) - 1)))"
    by (simp only: ideal_pixel_to_geo_def ideal_geo_to_pixel_def fst_conv snd_conv)
  show "scaled_within_rounding l1 l2 px
          (fst (snd (ideal_geo_to_pixel (ideal_pixel_to_geo px py l1) l2)))
      \<and> scaled_within_rounding l1 l2 py
          (snd (snd (ideal_geo_to_pixel (ideal_pixel_to_geo px py l1) l2)))"
    unfolding g fst_conv snd_conv
    using ideal_scaled [OF a(1,2,3)] ideal_scaled [OF a(1,2,4)] by (rule conjI)
qed

lemma set_level_state:
  assumes "lv \<le> 15" and "lv \<noteq> level self"
    and "geo_to_pixel (pixel_to_geo (world_x self) (world_y self) (level self)) lv = (rv, new_x, new_y)"
    and "geo_to_pixel (pixel_to_geo (marker_x self) (marker_y self) (level self)) lv = (rv', mx, my)"
    and "s' = snd (map_gauge_set_level pixel_to_geo geo_to_pixel now self lv)"
  shows "fst (map_gauge_set_level pixel_to_geo geo_to_pixel now self lv)"
    and "level s' = lv" "marker_x s' = mx" "marker_y s' = my"
    and "(world_x s' = clamp new_x 0 (map_math_size lv - 1 - frame_w self)
           \<and> world_y s' = clamp new_y 0 (map_math_size lv - 1 - frame_h self))
         \<or> center_calls self < center_calls s'"
    and "roaming self \<and> now - last_manipulation self \<le> MANIPULATE_TIMEOUT
         \<Longrightarrow> world_x s' = clamp new_x 0 (map_math_size lv - 1 - frame_w self)
           \<and> world_y s' = clamp new_y 0 (map_math_size lv - 1 - frame_h self)
           \<and> center_calls s' = center_calls self"
proof -
  let ?v = "snd (map_gauge_set_viewport (self\<lparr>level := lv\<rparr>) new_x new_y False)"
  let ?geo = "pixel_to_geo (marker_x self) (marker_y self) (level self)"
  have s': "s' = snd (map_gauge_set_marker_position geo_to_pixel now ?v ?geo)"
    and ok: "fst (map_gauge_set_level pixel_to_geo geo_to_pixel now self lv)"
    using assms(1,2) by (simp_all add: assms(5) map_gauge_set_level_def Let_def assms(3))
  have v: "level ?v = lv" "roaming ?v = roaming self" "last_manipulation ?v = last_manipulation self"
    "world_x ?v = clamp new_x 0 (map_math_size lv - 1 - frame_w self)"
    "world_y ?v = clamp new_y 0 (map_math_size lv - 1 - frame_h self)"
    "center_calls ?v = center_calls self"
    by (simp_all add: set_viewport_fields set_viewport_world)
  show "fst (map_gauge_set_level pixel_to_geo geo_to_pixel now self lv)" by (rule ok)
  show "level s' = lv" "marker_x s' = mx" "marker_y s' = my"
    by (simp_all add: s' set_marker_position_marker v(1) assms(4))
  show "(world_x s' = clamp new_x 0 (map_math_size lv - 1 - frame_w self)
           \<and> world_y s' = clamp new_y 0 (map_math_size lv - 1 - frame_h self))
         \<or> center_calls self < center_calls s'"
    using set_marker_position_world [of geo_to_pixel now ?v ?geo] v(4,5,6) by (simp add: s')
  show "world_x s' = clamp new_x 0 (map_math_size lv - 1 - frame_w self)
           \<and> world_y s' = clamp new_y 0 (map_math_size lv - 1 - frame_h self)
           \<and> center_calls s' = center_calls self"
    if "roaming self \<and> now - last_manipulation self \<le> MANIPULATE_TIMEOUT"
    using set_marker_position_roaming(3,4,5) [of ?v now geo_to_pixel ?geo] that v(2,3,4,5,6)
    by (simp add: s')
qed

text \<open>
  C6, as amended. The projections modelled from the spec scale within rounding. With any
  projections that do, a change to another level up to 15, from a level up to 15 with
  the origin and the marker inside its world, succeeds, and the marker ends at its old
  pixel scaled to the new level within rounding. The reprojected origin is the old origin
  scaled to the new level within rounding, and the origin ends at that pixel clamped to
  the bounds of \<^verbatim>\<open>map_gauge_set_viewport\<close>, in every mode, unless the marker update of
  the same call has recentered the viewport; a roaming gauge whose timeout has not
  expired is not recentered. So when the reprojected origin lies within the clamp's
  bounds and the call does not recenter, the origin ends at its old pixel scaled to the
  new level within rounding.
\<close>

theorem set_level_anchor:
  assumes "projections_scale pixel_to_geo geo_to_pixel"
    and "lv \<le> 15" and "level self \<le> 15" and "lv \<noteq> level self"
    and "world_x self < map_math_size (level self)" and "world_y self < map_math_size (level self)"
    and "marker_x self < map_math_size (level self)" and "marker_y self < map_math_size (level self)"
    and "geo_to_pixel (pixel_to_geo (world_x self) (world_y self) (level self)) lv = (rv, new_x, new_y)"
    and "s' = snd (map_gauge_set_level pixel_to_geo geo_to_pixel now self lv)"
  shows "projections_scale ideal_pixel_to_geo ideal_geo_to_pixel
       \<and> fst (map_gauge_set_level pixel_to_geo geo_to_pixel now self lv)
       \<and> level s' = lv
       \<and> scaled_within_rounding (level self) lv (marker_x self) (marker_x s')
       \<and> scaled_within_rounding (level self) lv (marker_y self) (marker_y s')
       \<and> scaled_within_rounding (level self) lv (world_x self) new_x
       \<and> scaled_within_rounding (level self) lv (world_y self) new_y
       \<and> ((world_x s' = clamp new_x 0 (map_math_size lv - 1 - frame_w self)
             \<and> world_y s' = clamp new_y 0 (map_math_size lv - 1 - frame_h self))
            \<or> center_calls self < center_calls s')
       \<and> (roaming self \<and> now - last_manipulation self \<le> MANIPULATE_TIMEOUT
            \<longrightarrow> world_x s' = clamp new_x 0 (map_math_size lv - 1 - frame_w self)
              \<and> world_y s' = clamp new_y 0 (map_math_size lv - 1 - frame_h self)
              \<and> center_calls s' = center_calls self)
       \<and> (0 \<le>s new_x \<and> new_x \<le>s map_math_size lv - 1 - frame_w self
          \<and> 0 \<le>s new_y \<and> new_y \<le>s map_math_size lv - 1 - frame_h self
            \<longrightarrow> (scaled_within_rounding (level self) lv (world_x self) (world_x s')
                  \<and> scaled_within_rounding (level self) lv (world_y self) (world_y s'))
                \<or> center_calls self < center_calls s')"
proof -
  obtain rv' mx my where
    m: "geo_to_pixel (pixel_to_geo (marker_x self) (marker_y self) (level self)) lv = (rv', mx, my)"
    by (cases "geo_to_pixel (pixel_to_geo (marker_x self) (marker_y self) (level self)) lv")
  note st = set_level_state [OF assms(2,4,9) m assms(10)]
  have so: "scaled_within_rounding (level self) lv (world_x self) new_x"
    "scaled_within_rounding (level self) lv (world_y self) new_y"
    using assms(1) assms(2,3,5,6) unfolding projections_scale_def
    by (metis assms(9) fst_conv snd_conv)+
  have sm: "scaled_within_rounding (level self) lv (marker_x self) mx"
    "scaled_within_rounding (level self) lv (marker_y self) my"
    using assms(1) assms(2,3,7,8) unfolding projections_scale_def
    by (metis m fst_conv snd_conv)+
  have inside: "(scaled_within_rounding (level self) lv (world_x self) (world_x s')
                  \<and> scaled_within_rounding (level self) lv (world_y self) (world_y s'))
                \<or> center_calls self < center_calls s'"
    if "0 \<le>s new_x \<and> new_x \<le>s map_math_size lv - 1 - frame_w self
          \<and> 0 \<le>s new_y \<and> new_y \<le>s map_math_size lv - 1 - frame_h self"
    using st(5) that so by (auto simp add: clamp_inside)
  show ?thesis
    using ideal_projections_scale st(1,2) st(3,4) sm so st(5) st(6) inside by simp
qed

lemma origin_reprojected:
  "ideal_geo_to_pixel (ideal_pixel_to_geo (world_x example_gauge) (world_y example_gauge)
        (level example_gauge)) 6 = (True, 200, 200)"
  by (simp add: example_gauge_def ideal_geo_to_pixel_def ideal_pixel_to_geo_def map_math_size_def)

lemma marker_geo:
  "ideal_pixel_to_geo (marker_x example_gauge) (marker_y example_gauge) (level example_gauge)
     = (364544, 364544)"
  by (simp add: example_gauge_def ideal_pixel_to_geo_def)

lemma marker_reprojected: "ideal_geo_to_pixel (364544, 364544) 6 = (True, 712, 712)"
  by (simp add: ideal_geo_to_pixel_def map_math_size_def)

lemma zoomed_viewport:
  "snd (map_gauge_set_viewport (example_gauge\<lparr>level := 6\<rparr>) 200 200 False)
     = example_gauge\<lparr>level := 6, world_x := 200, world_y := 200, dirty := True\<rparr>"
  by (simp add: example_gauge_def map_gauge_set_viewport_def map_math_size_def clamp_def
      MIN_int_def MAX_int_def word_sless_alt)

lemma zoomed_follow:
  "world_x (snd (map_gauge_follow_marker
      (example_gauge\<lparr>level := 6, world_x := 200, world_y := 200, dirty := True,
                      marker_x := 712, marker_y := 712\<rparr>))) = 440
   \<and> world_y (snd (map_gauge_follow_marker
      (example_gauge\<lparr>level := 6, world_x := 200, world_y := 200, dirty := True,
                      marker_x := 712, marker_y := 712\<rparr>))) = 440"
  by (simp add: example_gauge_def eval_defs)

lemma origin_zoomed_out:
  "ideal_geo_to_pixel (ideal_pixel_to_geo (world_x example_gauge) (world_y example_gauge)
        (level example_gauge)) 4 = (True, 50, 50)"
  by (simp add: example_gauge_def ideal_geo_to_pixel_def ideal_pixel_to_geo_def map_math_size_def)

lemma marker_zoomed_out: "ideal_geo_to_pixel (364544, 364544) 4 = (True, 178, 178)"
  by (simp add: ideal_geo_to_pixel_def map_math_size_def)

lemma zoomed_out_viewport:
  "snd (map_gauge_set_viewport (example_gauge\<lparr>level := 4\<rparr>) 50 50 False)
     = example_gauge\<lparr>level := 4, world_x := 50, world_y := 50, dirty := True\<rparr>"
  by (simp add: example_gauge_def map_gauge_set_viewport_def map_math_size_def clamp_def
      MIN_int_def MAX_int_def word_sless_alt)

lemma zoomed_out_follow:
  "world_x (snd (map_gauge_follow_marker
      (example_gauge\<lparr>level := 4, world_x := 50, world_y := 50, dirty := True,
                      marker_x := 178, marker_y := 178\<rparr>))) = 50
   \<and> world_y (snd (map_gauge_follow_marker
      (example_gauge\<lparr>level := 4, world_x := 50, world_y := 50, dirty := True,
                      marker_x := 178, marker_y := 178\<rparr>))) = 50
   \<and> center_calls (snd (map_gauge_follow_marker
      (example_gauge\<lparr>level := 4, world_x := 50, world_y := 50, dirty := True,
                      marker_x := 178, marker_y := 178\<rparr>))) = 0"
  by (simp add: example_gauge_def eval_defs)

lemma zoomed_out_level:
  "snd (map_gauge_set_level ideal_pixel_to_geo ideal_geo_to_pixel 0 example_gauge 4)
     = (snd (map_gauge_follow_marker
          (example_gauge\<lparr>level := 4, world_x := 50, world_y := 50, dirty := True,
                          marker_x := 178, marker_y := 178\<rparr>)))\<lparr>dirty := True\<rparr>"
proof -
  have l: "4 \<noteq> level example_gauge" "\<not> roaming example_gauge" "marker_x example_gauge = 356"
    "marker_y example_gauge = 356"
    by (simp_all add: example_gauge_def)
  have "snd (map_gauge_set_level ideal_pixel_to_geo ideal_geo_to_pixel 0 example_gauge 4)
        = snd (map_gauge_set_marker_position ideal_geo_to_pixel 0
                (example_gauge\<lparr>level := 4, world_x := 50, world_y := 50, dirty := True\<rparr>)
                (364544, 364544))"
    using l(1) by (simp add: map_gauge_set_level_def origin_zoomed_out marker_geo zoomed_out_viewport)
  also have "\<dots> = (snd (map_gauge_follow_marker
      (example_gauge\<lparr>level := 4, world_x := 50, world_y := 50, dirty := True,
                      marker_x := 178, marker_y := 178\<rparr>)))\<lparr>dirty := True\<rparr>"
    using l(2,3,4) by (simp add: map_gauge_set_marker_position_def marker_zoomed_out)
  finally show ?thesis .
qed

lemma example_in_world:
  "level example_gauge \<le> 15"
  "world_x example_gauge < map_math_size (level example_gauge)"
  "world_y example_gauge < map_math_size (level example_gauge)"
  "marker_x example_gauge < map_math_size (level example_gauge)"
  "marker_y example_gauge < map_math_size (level example_gauge)"
  by (simp_all add: example_gauge_def map_math_size_def)

text \<open>
  The example gauge, which is following, changes from level 5 to level 4: its origin
  goes from (100, 100) to (50, 50) with no recenter, and its marker from (356, 356) to
  (178, 178).
\<close>

theorem set_level_anchor_witness:
  "projections_scale ideal_pixel_to_geo ideal_geo_to_pixel
   \<and> (4 :: nat) \<le> 15 \<and> level example_gauge \<le> 15 \<and> 4 \<noteq> level example_gauge
   \<and> world_x example_gauge < map_math_size (level example_gauge)
   \<and> world_y example_gauge < map_math_size (level example_gauge)
   \<and> marker_x example_gauge < map_math_size (level example_gauge)
   \<and> marker_y example_gauge < map_math_size (level example_gauge)
   \<and> ideal_geo_to_pixel (ideal_pixel_to_geo (world_x example_gauge) (world_y example_gauge)
        (level example_gauge)) 4 = (True, 50, 50)
   \<and> (0 :: u32) \<le>s 50 \<and> (50 :: u32) \<le>s map_math_size 4 - 1 - frame_w example_gauge
   \<and> (50 :: u32) \<le>s map_math_size 4 - 1 - frame_h example_gauge
   \<and> \<not> roaming example_gauge
   \<and> world_x example_gauge = 100 \<and> world_y example_gauge = 100
   \<and> world_x (snd (map_gauge_set_level ideal_pixel_to_geo ideal_geo_to_pixel 0 example_gauge 4)) = 50
   \<and> world_y (snd (map_gauge_set_level ideal_pixel_to_geo ideal_geo_to_pixel 0 example_gauge 4)) = 50
   \<and> center_calls (snd (map_gauge_set_level ideal_pixel_to_geo ideal_geo_to_pixel 0 example_gauge 4))
       = center_calls example_gauge
   \<and> scaled_within_rounding (level example_gauge) 4 (world_x example_gauge)
        (world_x (snd (map_gauge_set_level ideal_pixel_to_geo ideal_geo_to_pixel 0 example_gauge 4)))
   \<and> scaled_within_rounding (level example_gauge) 4 (world_y example_gauge)
        (world_y (snd (map_gauge_set_level ideal_pixel_to_geo ideal_geo_to_pixel 0 example_gauge 4)))
   \<and> scaled_within_rounding (level example_gauge) 4 (marker_x example_gauge)
        (marker_x (snd (map_gauge_set_level ideal_pixel_to_geo ideal_geo_to_pixel 0 example_gauge 4)))
   \<and> scaled_within_rounding (level example_gauge) 4 (marker_y example_gauge)
        (marker_y (snd (map_gauge_set_level ideal_pixel_to_geo ideal_geo_to_pixel 0 example_gauge 4)))"
proof -
  let ?s = "snd (map_gauge_set_level ideal_pixel_to_geo ideal_geo_to_pixel 0 example_gauge 4)"
  have a: "(4 :: nat) \<le> 15" by simp
  have b: "4 \<noteq> level example_gauge" "\<not> roaming example_gauge"
    "world_x example_gauge = 100" "world_y example_gauge = 100" "center_calls example_gauge = 0"
    by (simp_all add: example_gauge_def)
  have f: "(0 :: u32) \<le>s 50" "(50 :: u32) \<le>s map_math_size 4 - 1 - frame_w example_gauge"
    "(50 :: u32) \<le>s map_math_size 4 - 1 - frame_h example_gauge"
    by (simp_all add: map_math_size_def word_sle_eq example_gauge_def)
  have w: "world_x ?s = 50" "world_y ?s = 50" "center_calls ?s = center_calls example_gauge"
    using zoomed_out_follow by (simp_all add: zoomed_out_level b(5))
  note t = set_level_anchor [where pixel_to_geo = ideal_pixel_to_geo
      and geo_to_pixel = ideal_geo_to_pixel and self = example_gauge and lv = 4 and now = 0,
      OF ideal_projections_scale a example_in_world(1) b(1) example_in_world(2,3,4,5)
         origin_zoomed_out refl]
  have n: "\<not> center_calls example_gauge < center_calls ?s" using w(3) by simp
  have s: "scaled_within_rounding (level example_gauge) 4 (world_x example_gauge) (world_x ?s)"
    "scaled_within_rounding (level example_gauge) 4 (world_y example_gauge) (world_y ?s)"
    using t f n by blast+
  have m: "scaled_within_rounding (level example_gauge) 4 (marker_x example_gauge) (marker_x ?s)"
    "scaled_within_rounding (level example_gauge) 4 (marker_y example_gauge) (marker_y ?s)"
    using t by blast+
  show ?thesis
    using ideal_projections_scale a example_in_world b(1,2,3,4) origin_zoomed_out f w s m
    by (intro conjI)
qed

lemma edge_gauge_fields:
  "level edge_gauge = 5" "roaming edge_gauge" "last_manipulation edge_gauge = 1000"
  "world_x edge_gauge = 7679" "world_y edge_gauge = 7679"
  "marker_x edge_gauge = 356" "marker_y edge_gauge = 356"
  "frame_w edge_gauge = 512" "frame_h edge_gauge = 512"
  by (simp_all add: edge_gauge_def roaming_gauge_def example_gauge_def)

lemma edge_zoomed_out:
  "world_x (snd (map_gauge_set_level ideal_pixel_to_geo ideal_geo_to_pixel 1500 edge_gauge 4)) = 3583
   \<and> world_y (snd (map_gauge_set_level ideal_pixel_to_geo ideal_geo_to_pixel 1500 edge_gauge 4)) = 3583"
proof -
  have a: "(4 :: nat) \<le> 15" "4 \<noteq> level edge_gauge" by (simp_all add: edge_gauge_fields)
  have c: "ideal_geo_to_pixel (ideal_pixel_to_geo (world_x edge_gauge) (world_y edge_gauge)
        (level edge_gauge)) 4 = (True, 3839, 3839)"
    by (simp add: edge_gauge_fields ideal_geo_to_pixel_def ideal_pixel_to_geo_def map_math_size_def)
  have d: "ideal_geo_to_pixel (ideal_pixel_to_geo (marker_x edge_gauge) (marker_y edge_gauge)
        (level edge_gauge)) 4 = (True, 178, 178)"
    by (simp add: edge_gauge_fields ideal_geo_to_pixel_def ideal_pixel_to_geo_def map_math_size_def)
  have r: "roaming edge_gauge \<and> 1500 - last_manipulation edge_gauge \<le> MANIPULATE_TIMEOUT"
    by (simp add: edge_gauge_fields MANIPULATE_TIMEOUT_def)
  have k: "clamp 3839 0 (map_math_size 4 - 513) = 3583"
    by (simp add: map_math_size_def clamp_def MIN_int_def MAX_int_def word_sless_alt)
  from set_level_state(6) [where pixel_to_geo = ideal_pixel_to_geo
      and geo_to_pixel = ideal_geo_to_pixel and self = edge_gauge and lv = 4 and now = 1500,
      OF a c d refl r]
  show ?thesis by (simp add: edge_gauge_fields k)
qed

text \<open>
  C6 as stated fails in two ways. On the following example gauge, from level 5 to
  level 6 the old origin reprojects to (200, 200), the marker lands at (712, 712), on
  the right and bottom edge of the viewport placed there, and the follow rule recenters
  the origin to (440, 440). On the roaming gauge at the far corner of the world, from
  level 5 to level 4 the old origin (7679, 7679) reprojects to (3839, 3839), beyond the
  last origin (3583, 3583) that the smaller world allows, and is clamped to it.
\<close>

theorem set_level_origin_counterexample:
  "(6 :: nat) \<le> 15 \<and> 6 \<noteq> level example_gauge
   \<and> ideal_geo_to_pixel (ideal_pixel_to_geo (world_x example_gauge) (world_y example_gauge)
        (level example_gauge)) 6 = (True, 200, 200)
   \<and> world_x (snd (map_gauge_set_level ideal_pixel_to_geo ideal_geo_to_pixel 0 example_gauge 6)) = 440
   \<and> world_y (snd (map_gauge_set_level ideal_pixel_to_geo ideal_geo_to_pixel 0 example_gauge 6)) = 440
   \<and> \<not> scaled_within_rounding (level example_gauge) 6 (world_x example_gauge)
        (world_x (snd (map_gauge_set_level ideal_pixel_to_geo ideal_geo_to_pixel 0 example_gauge 6)))
   \<and> (4 :: nat) \<le> 15 \<and> 4 \<noteq> level edge_gauge
   \<and> ideal_geo_to_pixel (ideal_pixel_to_geo (world_x edge_gauge) (world_y edge_gauge)
        (level edge_gauge)) 4 = (True, 3839, 3839)
   \<and> world_x (snd (map_gauge_set_level ideal_pixel_to_geo ideal_geo_to_pixel 1500 edge_gauge 4)) = 3583
   \<and> world_y (snd (map_gauge_set_level ideal_pixel_to_geo ideal_geo_to_pixel 1500 edge_gauge 4)) = 3583
   \<and> \<not> scaled_within_rounding (level edge_gauge) 4 (world_x edge_gauge)
        (world_x (snd (map_gauge_set_level ideal_pixel_to_geo ideal_geo_to_pixel 1500 edge_gauge 4)))"
proof -
  have l: "6 \<noteq> level example_gauge" "\<not> roaming example_gauge" "marker_x example_gauge = 356"
    "marker_y example_gauge = 356" "level example_gauge = 5" "world_x example_gauge = 100"
    by (simp_all add: example_gauge_def)
  have "snd (map_gauge_set_level ideal_pixel_to_geo ideal_geo_to_pixel 0 example_gauge 6)
        = snd (map_gauge_set_marker_position ideal_geo_to_pixel 0
                (example_gauge\<lparr>level := 6, world_x := 200, world_y := 200, dirty := True\<rparr>)
                (364544, 364544))"
    using l(1) by (simp add: map_gauge_set_level_def origin_reprojected marker_geo zoomed_viewport)
  also have "\<dots> = (snd (map_gauge_follow_marker
      (example_gauge\<lparr>level := 6, world_x := 200, world_y := 200, dirty := True,
                      marker_x := 712, marker_y := 712\<rparr>)))\<lparr>dirty := True\<rparr>"
    using l(2,3,4) by (simp add: map_gauge_set_marker_position_def marker_reprojected)
  finally have A: "world_x (snd (map_gauge_set_level ideal_pixel_to_geo ideal_geo_to_pixel 0 example_gauge 6)) = 440"
    "world_y (snd (map_gauge_set_level ideal_pixel_to_geo ideal_geo_to_pixel 0 example_gauge 6)) = 440"
    using zoomed_follow by simp_all
  have nA: "\<not> scaled_within_rounding (level example_gauge) 6 (world_x example_gauge)
        (world_x (snd (map_gauge_set_level ideal_pixel_to_geo ideal_geo_to_pixel 0 example_gauge 6)))"
    by (simp add: A l(5,6) scaled_within_rounding_def)
  have c: "ideal_geo_to_pixel (ideal_pixel_to_geo (world_x edge_gauge) (world_y edge_gauge)
        (level edge_gauge)) 4 = (True, 3839, 3839)"
    by (simp add: edge_gauge_fields ideal_geo_to_pixel_def ideal_pixel_to_geo_def map_math_size_def)
  have nB: "\<not> scaled_within_rounding (level edge_gauge) 4 (world_x edge_gauge)
        (world_x (snd (map_gauge_set_level ideal_pixel_to_geo ideal_geo_to_pixel 1500 edge_gauge 4)))"
    using edge_zoomed_out by (simp add: edge_gauge_fields scaled_within_rounding_def)
  have e: "4 \<noteq> level edge_gauge" by (simp add: edge_gauge_fields)
  show ?thesis
    using l(1) origin_reprojected A nA c edge_zoomed_out nB e by simp
qed

subsection \<open>The patches cover the viewport\<close>

lemma fold_rows_product:
  "fold (\<lambda>y. fold (f y) xs) ys s = fold (\<lambda>(y, x). f y x) (List.product ys xs) s"
  by (induction ys arbitrary: s) (simp_all add: fold_map comp_def)

lemma provider_loop_hit:
  "\<exists>i \<in> set is. get i \<noteq> None \<Longrightarrow> provider_loop get is l \<noteq> None"
  by (induction "is" arbitrary: l) (auto split: option.splits)

lemma IntersectRect_nonempty:
  assumes "0 < rect_w A" "0 < rect_h A" "0 < rect_w B" "0 < rect_h B"
  shows "snd (SDL_IntersectRect A B r) =
           \<lparr>rect_x = max (rect_x A) (rect_x B), rect_y = max (rect_y A) (rect_y B),
            rect_w = min (rect_x A + rect_w A) (rect_x B + rect_w B) - max (rect_x A) (rect_x B),
            rect_h = min (rect_y A + rect_h A) (rect_y B + rect_h B) - max (rect_y A) (rect_y B)\<rparr>"
  using assms by (simp add: SDL_IntersectRect_def SDL_RectEmpty_def Let_def max_def min_def)

lemma tile_body_hit:
  assumes "0 < rect_w vp" "0 < rect_h vp"
    and "\<exists>i \<in> set [0..<length (tile_providers s)]. get_tile i (level s) tilex tiley \<noteq> None"
    and "r = fst (tile_body get_tile vp tiley tilex (s, l0))"
  shows "npatches r = Suc (npatches s)"
    and "patch_dst (patches r (npatches s)) = tile_dst vp (world_x s) (world_y s) tiley tilex"
    and "\<And>k. k \<noteq> npatches s \<Longrightarrow> patches r k = patches s k"
    and "world_x r = world_x s" "world_y r = world_y s" "level r = level s"
    and "tile_providers r = tile_providers s"
proof -
  from provider_loop_hit [OF assms(3), of l0]
  obtain l where l: "provider_loop (\<lambda>i. get_tile i (level s) tilex tiley)
                       [0..<length (tile_providers s)] l0 = Some l"
    by auto
  have i: "snd (SDL_IntersectRect vp \<lparr>rect_x = 256 * int tilex, rect_y = 256 * int tiley,
                         rect_w = 256, rect_h = 256\<rparr> r0) =
      \<lparr>rect_x = max (rect_x vp) (256 * int tilex), rect_y = max (rect_y vp) (256 * int tiley),
       rect_w = min (rect_x vp + rect_w vp) (256 * int tilex + 256) - max (rect_x vp) (256 * int tilex),
       rect_h = min (rect_y vp + rect_h vp) (256 * int tiley + 256) - max (rect_y vp) (256 * int tiley)\<rparr>"
    for r0
    using assms(1,2) by (simp add: IntersectRect_nonempty)
  have r: "r = (let n = npatches s in
     s\<lparr>patches := (patches s)(n := (patches s n)\<lparr>
          patch_src := \<lparr>rect_x = max (rect_x vp) (256 * int tilex) - 256 * int tilex,
                        rect_y = max (rect_y vp) (256 * int tiley) - 256 * int tiley,
       rect_w = min (rect_x vp + rect_w vp) (256 * int tilex + 256) - max (rect_x vp) (256 * int tilex),
       rect_h = min (rect_y vp + rect_h vp) (256 * int tiley + 256) - max (rect_y vp) (256 * int tiley)\<rparr>,
          patch_dst := tile_dst vp (world_x s) (world_y s) tiley tilex,
          patch_layer := l\<rparr>),
        layer_refs := (layer_refs s)(l := layer_refs s l + 1),
        npatches := Suc n\<rparr>)"
    by (simp add: assms(4) tile_body_def l Let_def i tile_dst_def TILE_SIZE_def)
  show "npatches r = Suc (npatches s)"
    and "patch_dst (patches r (npatches s)) = tile_dst vp (world_x s) (world_y s) tiley tilex"
    and "\<And>k. k \<noteq> npatches s \<Longrightarrow> patches r k = patches s k"
    and "world_x r = world_x s" "world_y r = world_y s" "level r = level s"
    and "tile_providers r = tile_providers s"
    by (simp_all add: r Let_def)
qed

lemma tiles_loop:
  assumes "0 < rect_w vp" "0 < rect_h vp"
    and "\<forall>(tiley, tilex) \<in> set ts.
           \<exists>i \<in> set [0..<length (tile_providers s)]. get_tile i (level s) tilex tiley \<noteq> None"
    and "r = fst (fold (\<lambda>(tiley, tilex). tile_body get_tile vp tiley tilex) ts (s, l0))"
  shows "npatches r = npatches s + length ts
       \<and> (\<forall>k < length ts. patch_dst (patches r (npatches s + k))
              = tile_dst vp (world_x s) (world_y s) (fst (ts ! k)) (snd (ts ! k)))
       \<and> (\<forall>k < npatches s. patches r k = patches s k)
       \<and> world_x r = world_x s \<and> world_y r = world_y s"
  using assms(3,4)
proof (induction ts arbitrary: s l0 r)
  case Nil
  then show ?case by simp
next
  case (Cons t ts)
  obtain tiley tilex where t: "t = (tiley, tilex)" by (cases t)
  define st where "st = tile_body get_tile vp tiley tilex (s, l0)"
  have hit: "\<exists>i \<in> set [0..<length (tile_providers s)]. get_tile i (level s) tilex tiley \<noteq> None"
    using Cons.prems(1) t by simp
  have eq: "fst st = fst (tile_body get_tile vp tiley tilex (s, l0))" by (simp add: st_def)
  note b = tile_body_hit [where get_tile = get_tile and s = s and tilex = tilex and tiley = tiley
      and ?l0.0 = l0 and r = "fst st" and vp = vp, OF assms(1,2) hit eq]
  have r: "r = fst (fold (\<lambda>(tiley, tilex). tile_body get_tile vp tiley tilex) ts (fst st, snd st))"
    using Cons.prems(2) by (simp add: t st_def)
  have h: "\<forall>(tiley, tilex) \<in> set ts.
           \<exists>i \<in> set [0..<length (tile_providers (fst st))].
              get_tile i (level (fst st)) tilex tiley \<noteq> None"
    using Cons.prems(1) b(6,7) by simp
  note ih = Cons.IH [OF h r]
  have n: "npatches r = npatches s + length (t # ts)" using ih b(1) by simp
  have old: "\<forall>k < npatches s. patches r k = patches s k"
    using ih b(1) b(3) by simp
  have new: "patch_dst (patches r (npatches s + k))
              = tile_dst vp (world_x s) (world_y s) (fst ((t # ts) ! k)) (snd ((t # ts) ! k))"
    if "k < length (t # ts)" for k
  proof (cases k)
    case 0
    have "patches r (npatches s) = patches (fst st) (npatches s)" using ih b(1) by simp
    then show ?thesis using 0 b(2) t by simp
  next
    case (Suc j)
    then have "j < length ts" using that by simp
    then show ?thesis using ih b(1,4,5) Suc by simp
  qed
  show ?case using n old new ih b(4,5) by simp
qed

lemma unref_patches_fields:
  "patches (unref_patches s) = patches s \<and> npatches (unref_patches s) = npatches s
   \<and> world_x (unref_patches s) = world_x s \<and> world_y (unref_patches s) = world_y s
   \<and> level (unref_patches s) = level s \<and> tile_providers (unref_patches s) = tile_providers s
   \<and> frame_w (unref_patches s) = frame_w s \<and> frame_h (unref_patches s) = frame_h s"
proof -
  have "patches (fold (\<lambda>i s. s\<lparr>layer_refs := (layer_refs s)(patch_layer (patches s i) :=
                       layer_refs s (patch_layer (patches s i)) - 1)\<rparr>) ks s) = patches s
      \<and> npatches (fold (\<lambda>i s. s\<lparr>layer_refs := (layer_refs s)(patch_layer (patches s i) :=
                       layer_refs s (patch_layer (patches s i)) - 1)\<rparr>) ks s) = npatches s
      \<and> world_x (fold (\<lambda>i s. s\<lparr>layer_refs := (layer_refs s)(patch_layer (patches s i) :=
                       layer_refs s (patch_layer (patches s i)) - 1)\<rparr>) ks s) = world_x s
      \<and> world_y (fold (\<lambda>i s. s\<lparr>layer_refs := (layer_refs s)(patch_layer (patches s i) :=
                       layer_refs s (patch_layer (patches s i)) - 1)\<rparr>) ks s) = world_y s
      \<and> level (fold (\<lambda>i s. s\<lparr>layer_refs := (layer_refs s)(patch_layer (patches s i) :=
                       layer_refs s (patch_layer (patches s i)) - 1)\<rparr>) ks s) = level s
      \<and> tile_providers (fold (\<lambda>i s. s\<lparr>layer_refs := (layer_refs s)(patch_layer (patches s i) :=
                       layer_refs s (patch_layer (patches s i)) - 1)\<rparr>) ks s) = tile_providers s
      \<and> frame_w (fold (\<lambda>i s. s\<lparr>layer_refs := (layer_refs s)(patch_layer (patches s i) :=
                       layer_refs s (patch_layer (patches s i)) - 1)\<rparr>) ks s) = frame_w s
      \<and> frame_h (fold (\<lambda>i s. s\<lparr>layer_refs := (layer_refs s)(patch_layer (patches s i) :=
                       layer_refs s (patch_layer (patches s i)) - 1)\<rparr>) ks s) = frame_h s"
    for ks
    by (induction ks arbitrary: s) simp_all
  then show ?thesis by (simp add: unref_patches_def)
qed

lemma marker_patch_fields:
  "patches (marker_patch vp s) = patches s \<and> npatches (marker_patch vp s) = npatches s"
  by (simp add: marker_patch_def Let_def split: prod.splits)

lemma sint_small: "uint (x::u32) < 2147483648 \<Longrightarrow> sint x = uint x"
proof -
  assume a: "uint x < 2147483648"
  have b: "- 2147483648 \<le> uint x" using uint_ge_0 [of x] by linarith
  have "sint (word_of_int (uint x) :: u32) = uint x"
    using b a by (rule sint_word_of_int_u32)
  then show ?thesis by simp
qed

lemma last_coord:
  assumes "0 < sint (w::u32)" "uint (x::u32) + sint w \<le> 2147483648"
  shows "uint (x + w - 1) = uint x + sint w - 1"
proof -
  have a: "0 \<le> uint x + sint w - 1" using assms(1) uint_ge_0 [of x] by linarith
  have b: "uint x + sint w - 1 < 4294967296" using assms(2) by linarith
  have "x + w - 1 = word_of_int (uint x + sint w - 1)" by simp
  moreover have "uint (word_of_int (uint x + sint w - 1) :: u32) = uint x + sint w - 1"
    using a b by (rule uint_word_of_int_u32)
  ultimately show ?thesis by simp
qed

lemma tile_range_int:
  assumes "0 < sint (frame_w s)" "uint (world_x s) + sint (frame_w s) \<le> 2147483648"
    and "0 < sint (frame_h s)" "uint (world_y s) + sint (frame_h s) \<le> 2147483648"
    and "tile_range s = (tlx, tly, brx, bry)"
  shows "int tlx = uint (world_x s) div 256" "int tly = uint (world_y s) div 256"
    and "int brx = (uint (world_x s) + sint (frame_w s) - 1) div 256"
    and "int bry = (uint (world_y s) + sint (frame_h s) - 1) div 256"
  using assms(5) last_coord [OF assms(1,2)] last_coord [OF assms(3,4)]
  by (auto simp add: tile_range_def Let_def uint_div simp flip: uint_nat)

lemma div_256_iff: "((x::int) div 256 = t) = (256 * t \<le> x \<and> x < 256 * t + 256)"
proof
  assume "x div 256 = t"
  then show "256 * t \<le> x \<and> x < 256 * t + 256"
    using div_mult_mod_eq [of x 256] pos_mod_bound [of 256 x] pos_mod_sign [of 256 x] by auto
next
  assume "256 * t \<le> x \<and> x < 256 * t + 256"
  then show "x div 256 = t"
    by (intro int_div_pos_eq [of x 256 t "x - 256 * t"]) auto
qed

lemma tile_dst_points:
  assumes "0 < W" "X + W \<le> 2147483648" "0 < H" "Y + H \<le> 2147483648"
    and "0 \<le> X" "0 \<le> Y"
    and "256 * int tilex \<le> X + W - 1" "256 * int tiley \<le> Y + H - 1"
  shows "rect_points (tile_dst \<lparr>rect_x = X, rect_y = Y, rect_w = W, rect_h = H\<rparr>
                        (word_of_int X) (word_of_int Y) tiley tilex)
         = {(px, py). 0 \<le> px \<and> px < W \<and> (X + px) div 256 = int tilex
                    \<and> 0 \<le> py \<and> py < H \<and> (Y + py) div 256 = int tiley}"
proof -
  have x: "sint (word_of_int (max X (256 * int tilex)) - (word_of_int X :: u32))
            = max X (256 * int tilex) - X"
  proof -
    have "word_of_int (max X (256 * int tilex)) - (word_of_int X :: u32)
            = word_of_int (max X (256 * int tilex) - X)" by simp
    moreover have "sint (word_of_int (max X (256 * int tilex) - X) :: u32)
            = max X (256 * int tilex) - X"
      using assms by (intro sint_word_of_int_u32) auto
    ultimately show ?thesis by simp
  qed
  have y: "sint (word_of_int (max Y (256 * int tiley)) - (word_of_int Y :: u32))
            = max Y (256 * int tiley) - Y"
  proof -
    have "word_of_int (max Y (256 * int tiley)) - (word_of_int Y :: u32)
            = word_of_int (max Y (256 * int tiley) - Y)" by simp
    moreover have "sint (word_of_int (max Y (256 * int tiley) - Y) :: u32)
            = max Y (256 * int tiley) - Y"
      using assms by (intro sint_word_of_int_u32) auto
    ultimately show ?thesis by simp
  qed
  show ?thesis
    unfolding rect_points_def tile_dst_def
    by (simp only: x y SDL_Rect.simps div_256_iff) (auto simp add: max_def min_def)
qed

lemma update_state_unfold:
  assumes "realloc_ok \<or> tile_span self \<le> apatches self"
    and "tile_range self = (tlx, tly, brx, bry)"
  shows "\<exists>s1. npatches s1 = 0 \<and> world_x s1 = world_x self \<and> world_y s1 = world_y self
           \<and> level s1 = level self \<and> tile_providers s1 = tile_providers self
           \<and> map_gauge_update_state get_tile realloc_ok layer0 self
               = marker_patch (map_gauge_viewport self)
                   (fst (fold (\<lambda>(tiley, tilex). tile_body get_tile (map_gauge_viewport self) tiley tilex)
                          (List.product [tly..<Suc bry] [tlx..<Suc brx]) (s1, layer0)))"
proof -
  define s0 where "s0 = (if tile_span self > apatches self
                         then self\<lparr>apatches := tile_span self\<rparr> else self)"
  define s1 where "s1 = (unref_patches s0)\<lparr>npatches := 0\<rparr>"
  have f0: "world_x s0 = world_x self" "world_y s0 = world_y self" "level s0 = level self"
    "tile_providers s0 = tile_providers self" "frame_w s0 = frame_w self" "frame_h s0 = frame_h self"
    by (simp_all add: s0_def)
  have f1: "npatches s1 = 0" "world_x s1 = world_x self" "world_y s1 = world_y self"
    "level s1 = level self" "tile_providers s1 = tile_providers self"
    "frame_w s1 = frame_w self" "frame_h s1 = frame_h self"
    using unref_patches_fields [of s0] f0 by (simp_all add: s1_def)
  have vp: "map_gauge_viewport s1 = map_gauge_viewport self"
    by (simp add: map_gauge_viewport_def f1)
  have "map_gauge_update_state get_tile realloc_ok layer0 self
          = marker_patch (map_gauge_viewport s1)
              (fst (fold (\<lambda>tiley. fold (tile_body get_tile (map_gauge_viewport s1) tiley)
                                     [tlx..<Suc brx])
                      [tly..<Suc bry] (s1, layer0)))"
    using assms(1)
    by (auto simp add: map_gauge_update_state_def assms(2) Let_def s1_def s0_def)
  then show ?thesis
    using f1 by (auto simp add: vp fold_rows_product intro!: exI [of _ s1])
qed

lemma update_state_tiles:
  assumes "0 < sint (frame_w self)" and "0 < sint (frame_h self)"
    and "realloc_ok \<or> tile_span self \<le> apatches self"
    and "all_tiles_hit get_tile self"
    and "tile_range self = (tlx, tly, brx, bry)"
    and "s' = map_gauge_update_state get_tile realloc_ok layer0 self"
    and "ts = List.product [tly..<Suc bry] [tlx..<Suc brx]"
  shows "npatches s' = length ts"
    and "\<forall>k < length ts. patch_dst (patches s' k)
            = tile_dst (map_gauge_viewport self) (world_x self) (world_y self)
                (fst (ts ! k)) (snd (ts ! k))"
proof -
  let ?vp = "map_gauge_viewport self"
  from update_state_unfold [OF assms(3,5), of get_tile layer0]
  obtain s1 where s1: "npatches s1 = 0" "world_x s1 = world_x self" "world_y s1 = world_y self"
    "level s1 = level self" "tile_providers s1 = tile_providers self"
    and u: "s' = marker_patch ?vp
                   (fst (fold (\<lambda>(tiley, tilex). tile_body get_tile ?vp tiley tilex) ts (s1, layer0)))"
    unfolding assms(6,7) by blast
  define r where "r = fst (fold (\<lambda>(tiley, tilex). tile_body get_tile ?vp tiley tilex) ts (s1, layer0))"
  have vw: "0 < rect_w ?vp" "0 < rect_h ?vp"
    using assms(1,2) by (simp_all add: map_gauge_viewport_def)
  have hit: "\<forall>(tiley, tilex) \<in> set ts.
           \<exists>i \<in> set [0..<length (tile_providers s1)]. get_tile i (level s1) tilex tiley \<noteq> None"
    using assms(4) by (auto simp add: all_tiles_hit_def assms(5,7) s1)
  from tiles_loop [OF vw hit r_def]
  have l: "npatches r = length ts"
    "\<forall>k < length ts. patch_dst (patches r k)
              = tile_dst ?vp (world_x self) (world_y self) (fst (ts ! k)) (snd (ts ! k))"
    by (simp_all add: s1)
  have "patches s' = patches r" "npatches s' = npatches r"
    using marker_patch_fields [of ?vp r] by (simp_all add: u r_def)
  then show "npatches s' = length ts"
    and "\<forall>k < length ts. patch_dst (patches s' k)
            = tile_dst ?vp (world_x self) (world_y self) (fst (ts ! k)) (snd (ts ! k))"
    using l by simp_all
qed

lemma update_state_patch_points:
  assumes "0 < sint (frame_w self)" "uint (world_x self) + sint (frame_w self) \<le> 2147483648"
    and "0 < sint (frame_h self)" "uint (world_y self) + sint (frame_h self) \<le> 2147483648"
    and "realloc_ok \<or> tile_span self \<le> apatches self"
    and "all_tiles_hit get_tile self"
    and "tile_range self = (tlx, tly, brx, bry)"
    and "s' = map_gauge_update_state get_tile realloc_ok layer0 self"
    and "ts = List.product [tly..<Suc bry] [tlx..<Suc brx]"
  shows "npatches s' = length ts"
    and "\<forall>k < length ts. rect_points (patch_dst (patches s' k))
            = {(px, py). 0 \<le> px \<and> px < sint (frame_w self)
                       \<and> (uint (world_x self) + px) div 256 = int (snd (ts ! k))
                       \<and> 0 \<le> py \<and> py < sint (frame_h self)
                       \<and> (uint (world_y self) + py) div 256 = int (fst (ts ! k))}"
proof -
  let ?X = "uint (world_x self)" and ?Y = "uint (world_y self)"
  let ?W = "sint (frame_w self)" and ?H = "sint (frame_h self)"
  note t = update_state_tiles [OF assms(1,3,5,6,7,8,9)]
  show "npatches s' = length ts" by (rule t(1))
  note ri = tile_range_int [OF assms(1,2,3,4,7)]
  have X: "sint (world_x self) = ?X" using assms(1,2) by (intro sint_small) linarith
  have Y: "sint (world_y self) = ?Y" using assms(3,4) by (intro sint_small) linarith
  have vp: "map_gauge_viewport self = \<lparr>rect_x = ?X, rect_y = ?Y, rect_w = ?W, rect_h = ?H\<rparr>"
    by (simp add: map_gauge_viewport_def X Y)
  show "\<forall>k < length ts. rect_points (patch_dst (patches s' k))
            = {(px, py). 0 \<le> px \<and> px < ?W \<and> (?X + px) div 256 = int (snd (ts ! k))
                       \<and> 0 \<le> py \<and> py < ?H \<and> (?Y + py) div 256 = int (fst (ts ! k))}"
  proof (intro allI impI)
    fix k assume k: "k < length ts"
    obtain tiley tilex where tk: "ts ! k = (tiley, tilex)" by (cases "ts ! k")
    have "(tiley, tilex) \<in> set ts" using k tk by (metis nth_mem)
    then have le: "tilex \<le> brx" "tiley \<le> bry" by (auto simp add: assms(9))
    have "256 * int tilex \<le> 256 * int brx" using le(1) by simp
    also have "\<dots> \<le> ?X + ?W - 1" unfolding ri(3) by (simp add: div_256_iff [THEN iffD1])
    finally have bx: "256 * int tilex \<le> ?X + ?W - 1" .
    have "256 * int tiley \<le> 256 * int bry" using le(2) by simp
    also have "\<dots> \<le> ?Y + ?H - 1" unfolding ri(4) by (simp add: div_256_iff [THEN iffD1])
    finally have "by": "256 * int tiley \<le> ?Y + ?H - 1" .
    have "rect_points (tile_dst \<lparr>rect_x = ?X, rect_y = ?Y, rect_w = ?W, rect_h = ?H\<rparr>
                        (word_of_int ?X) (word_of_int ?Y) tiley tilex)
         = {(px, py). 0 \<le> px \<and> px < ?W \<and> (?X + px) div 256 = int tilex
                    \<and> 0 \<le> py \<and> py < ?H \<and> (?Y + py) div 256 = int tiley}"
      using assms(1,2,3,4) bx "by" by (intro tile_dst_points) simp_all
    then show "rect_points (patch_dst (patches s' k))
            = {(px, py). 0 \<le> px \<and> px < ?W \<and> (?X + px) div 256 = int (snd (ts ! k))
                       \<and> 0 \<le> py \<and> py < ?H \<and> (?Y + py) div 256 = int (fst (ts ! k))}"
      using t(2) k by (simp add: tk vp)
  qed
qed

text \<open>
  C3, as amended. The 512 by 512 viewport at level 5 with its origin at (100, 100) ends at
  pixel 611, in tile 2: its tile range is 0 to 2 in both directions, nine tiles. And
  for every gauge whose viewport has a positive width and height and ends within the
  range of \<^verbatim>\<open>int\<close>, when every tile of the range is supplied and the patch block is large
  enough or can be grown, the destination rectangles of the patches that
  \<^verbatim>\<open>map_gauge_update_state\<close> builds cover exactly the rectangle \<open>{0, 0, w, h}\<close>, no two
  of them share a pixel, and there is one patch for each tile of the range.
\<close>

theorem update_state_patch_coverage:
  assumes "0 < sint (frame_w self)" "uint (world_x self) + sint (frame_w self) \<le> 2147483648"
    and "0 < sint (frame_h self)" "uint (world_y self) + sint (frame_h self) \<le> 2147483648"
    and "realloc_ok \<or> tile_span self \<le> apatches self"
    and "all_tiles_hit get_tile self"
    and "s' = map_gauge_update_state get_tile realloc_ok layer0 self"
  shows "tile_range example_gauge = (0, 0, 2, 2) \<and> tile_span example_gauge = 9
       \<and> (\<Union>i < npatches s'. rect_points (patch_dst (patches s' i)))
           = rect_points \<lparr>rect_x = 0, rect_y = 0, rect_w = sint (frame_w self),
                           rect_h = sint (frame_h self)\<rparr>
       \<and> (\<forall>i < npatches s'. \<forall>j < npatches s'. i \<noteq> j
             \<longrightarrow> rect_points (patch_dst (patches s' i)) \<inter> rect_points (patch_dst (patches s' j)) = {})
       \<and> (case tile_range self of (tl_tile_x, tl_tile_y, br_tile_x, br_tile_y)
             \<Rightarrow> npatches s' = (Suc br_tile_x - tl_tile_x) * (Suc br_tile_y - tl_tile_y))"
proof -
  let ?X = "uint (world_x self)" and ?Y = "uint (world_y self)"
  let ?W = "sint (frame_w self)" and ?H = "sint (frame_h self)"
  obtain tlx tly brx bry where tr: "tile_range self = (tlx, tly, brx, bry)"
    by (cases "tile_range self")
  define ts where "ts = List.product [tly..<Suc bry] [tlx..<Suc brx]"
  note p = update_state_patch_points [OF assms(1,2,3,4,5,6) tr assms(7) ts_def]
  note ri = tile_range_int [OF assms(1,2,3,4) tr]
  have d: "distinct ts" by (simp add: ts_def distinct_product)
  have n: "npatches s' = (Suc brx - tlx) * (Suc bry - tly)"
    by (simp only: p(1) ts_def length_product length_upt) (rule mult.commute)
  have disj: "rect_points (patch_dst (patches s' i)) \<inter> rect_points (patch_dst (patches s' j)) = {}"
    if "i < npatches s'" "j < npatches s'" "i \<noteq> j" for i j
  proof -
    have ij: "i < length ts" "j < length ts" using that p(1) by simp_all
    have ne: "ts ! i \<noteq> ts ! j" using d ij that(3) by (simp add: nth_eq_iff_index_eq)
    show ?thesis
    proof (rule ccontr)
      assume "rect_points (patch_dst (patches s' i)) \<inter> rect_points (patch_dst (patches s' j)) \<noteq> {}"
      then obtain px py where "(px, py) \<in> rect_points (patch_dst (patches s' i))"
        "(px, py) \<in> rect_points (patch_dst (patches s' j))" by auto
      then have "int (snd (ts ! i)) = int (snd (ts ! j))" "int (fst (ts ! i)) = int (fst (ts ! j))"
        using p(2) ij by auto
      then have "ts ! i = ts ! j" by (simp add: prod_eq_iff)
      then show False using ne by simp
    qed
  qed
  have cover: "(\<Union>i < npatches s'. rect_points (patch_dst (patches s' i)))
           = rect_points \<lparr>rect_x = 0, rect_y = 0, rect_w = ?W, rect_h = ?H\<rparr>"
  proof (intro set_eqI iffI)
    fix q assume "q \<in> (\<Union>i < npatches s'. rect_points (patch_dst (patches s' i)))"
    then obtain i where "i < length ts" "q \<in> rect_points (patch_dst (patches s' i))"
      using p(1) by auto
    then show "q \<in> rect_points \<lparr>rect_x = 0, rect_y = 0, rect_w = ?W, rect_h = ?H\<rparr>"
      using p(2) by (auto simp add: rect_points_def)
  next
    fix q assume q: "q \<in> rect_points \<lparr>rect_x = 0, rect_y = 0, rect_w = ?W, rect_h = ?H\<rparr>"
    obtain px py where qq: "q = (px, py)" by (cases q)
    have b: "0 \<le> px" "px < ?W" "0 \<le> py" "py < ?H" using q by (simp_all add: qq rect_points_def)
    define tx where "tx = nat ((?X + px) div 256)"
    define ty where "ty = nat ((?Y + py) div 256)"
    have x0: "0 \<le> (?X + px) div 256" using b(1) by (simp add: pos_imp_zdiv_nonneg_iff)
    have y0: "0 \<le> (?Y + py) div 256" using b(3) by (simp add: pos_imp_zdiv_nonneg_iff)
    have tx: "int tx = (?X + px) div 256" using x0 by (simp add: tx_def)
    have ty: "int ty = (?Y + py) div 256" using y0 by (simp add: ty_def)
    have "?X div 256 \<le> (?X + px) div 256" using b(1) by (intro zdiv_mono1) simp_all
    moreover have "(?X + px) div 256 \<le> (?X + ?W - 1) div 256"
      using b(2) by (intro zdiv_mono1) simp_all
    ultimately have xr: "tlx \<le> tx" "tx \<le> brx" using ri(1,3) tx by linarith+
    have "?Y div 256 \<le> (?Y + py) div 256" using b(3) by (intro zdiv_mono1) simp_all
    moreover have "(?Y + py) div 256 \<le> (?Y + ?H - 1) div 256"
      using b(4) by (intro zdiv_mono1) simp_all
    ultimately have yr: "tly \<le> ty" "ty \<le> bry" using ri(2,4) ty by linarith+
    have "ty \<in> set [tly..<Suc bry]" "tx \<in> set [tlx..<Suc brx]" using xr yr by auto
    then have "(ty, tx) \<in> set ts" unfolding ts_def set_product by blast
    then obtain k where k: "k < length ts" "ts ! k = (ty, tx)" by (auto simp add: in_set_conv_nth)
    have "q \<in> rect_points (patch_dst (patches s' k))"
      using p(2) k b tx ty by (simp add: qq)
    then show "q \<in> (\<Union>i < npatches s'. rect_points (patch_dst (patches s' i)))"
      using k(1) p(1) by auto
  qed
  show ?thesis
    using cover disj n tile_range_example tile_span_example by (simp add: tr)
qed

lemma example_hits: "all_tiles_hit (\<lambda>i lv x y. Some (x + 3 * y)) example_gauge"
proof -
  note tile_range_example
  moreover have "length (tile_providers example_gauge) = 2" by (simp add: example_gauge_def)
  ultimately show ?thesis by (auto simp add: all_tiles_hit_def intro!: exI [of _ "0::nat"])
qed

lemma example_frame:
  "0 < sint (frame_w example_gauge)" "uint (world_x example_gauge) + sint (frame_w example_gauge) \<le> 2147483648"
  "0 < sint (frame_h example_gauge)" "uint (world_y example_gauge) + sint (frame_h example_gauge) \<le> 2147483648"
  by (simp_all add: example_gauge_def)

text \<open>
  On the example gauge, with providers that supply every tile, the nine patches cover
  the 512 by 512 viewport.
\<close>

theorem update_state_patch_coverage_witness:
  "0 < sint (frame_w example_gauge)
   \<and> uint (world_x example_gauge) + sint (frame_w example_gauge) \<le> 2147483648
   \<and> 0 < sint (frame_h example_gauge)
   \<and> uint (world_y example_gauge) + sint (frame_h example_gauge) \<le> 2147483648
   \<and> all_tiles_hit (\<lambda>i lv x y. Some (x + 3 * y)) example_gauge
   \<and> (\<Union>i < npatches (map_gauge_update_state (\<lambda>i lv x y. Some (x + 3 * y)) True None example_gauge).
        rect_points (patch_dst (patches
          (map_gauge_update_state (\<lambda>i lv x y. Some (x + 3 * y)) True None example_gauge) i)))
       = rect_points \<lparr>rect_x = 0, rect_y = 0, rect_w = 512, rect_h = 512\<rparr>
   \<and> npatches (map_gauge_update_state (\<lambda>i lv x y. Some (x + 3 * y)) True None example_gauge) = 9"
proof -
  have r: "True \<or> tile_span example_gauge \<le> apatches example_gauge" by simp
  have w: "sint (frame_w example_gauge) = 512" "sint (frame_h example_gauge) = 512"
    by (simp_all add: example_gauge_def)
  note t = tile_range_example
  note c = update_state_patch_coverage [OF example_frame r example_hits refl, of None]
  have n: "npatches (map_gauge_update_state (\<lambda>i lv x y. Some (x + 3 * y)) True None example_gauge) = 9"
    using c by (simp add: t)
  have "(\<Union>i < npatches (map_gauge_update_state (\<lambda>i lv x y. Some (x + 3 * y)) True None example_gauge).
        rect_points (patch_dst (patches
          (map_gauge_update_state (\<lambda>i lv x y. Some (x + 3 * y)) True None example_gauge) i)))
       = rect_points \<lparr>rect_x = 0, rect_y = 0, rect_w = sint (frame_w example_gauge),
                       rect_h = sint (frame_h example_gauge)\<rparr>"
    using c by blast
  then have u: "(\<Union>i < npatches (map_gauge_update_state (\<lambda>i lv x y. Some (x + 3 * y)) True None example_gauge).
        rect_points (patch_dst (patches
          (map_gauge_update_state (\<lambda>i lv x y. Some (x + 3 * y)) True None example_gauge) i)))
       = rect_points \<lparr>rect_x = 0, rect_y = 0, rect_w = 512, rect_h = 512\<rparr>"
    by (simp only: w)
  show ?thesis
    using example_frame example_hits u n by blast
qed

text \<open>
  C3 as stated fails in its example: the tile range of the example gauge is 0 to 2, not
  0 to 1, and the update builds nine patches, not at most four; the third of them, for
  the tile in row 0 and column 2, fills the viewport from column 412 on.
\<close>

theorem tile_range_counterexample:
  "tile_range example_gauge = (0, 0, 2, 2)
   \<and> npatches (map_gauge_update_state (\<lambda>i lv x y. Some (x + 3 * y)) True None example_gauge) = 9
   \<and> patch_dst (patches (map_gauge_update_state (\<lambda>i lv x y. Some (x + 3 * y)) True None example_gauge) 2)
       = \<lparr>rect_x = 412, rect_y = 0, rect_w = 100, rect_h = 156\<rparr>"
proof -
  have r: "True \<or> tile_span example_gauge \<le> apatches example_gauge" by simp
  note t = tile_range_example
  have ts: "List.product [0..<Suc 2] [0..<Suc 2]
     = [(0,0), (0,1), (0,2), (1,0), (1,1), (1,2), (2,0), (2,1), (2::nat,2::nat)]"
    by (simp add: upt_rec)
  note u = update_state_tiles [OF example_frame(1,3) r example_hits t refl refl, of None, unfolded ts]
  have d: "tile_dst (map_gauge_viewport example_gauge) (world_x example_gauge) (world_y example_gauge) 0 2
       = \<lparr>rect_x = 412, rect_y = 0, rect_w = 100, rect_h = 156\<rparr>"
    by (simp add: tile_dst_def map_gauge_viewport_def example_gauge_def)
  show ?thesis using t u d by simp
qed

end
